theory Spec2Isabelle
  imports Complex_Main "HOL-Library.Multiset"
begin

section \<open>The relational schema (supabase/migrations/20250414192917\_humble\_tooth.sql)\<close>

text \<open>
  Identifiers of type UUID are modelled as natural numbers, DATE values as a number of
  days, TIMESTAMPTZ values as a number of ticks and DECIMAL(10,2) amounts as a number of
  hundredths. A column declared without NOT NULL holds an \<open>option\<close>: \<open>None\<close> is
  SQL's NULL. A table is the list of its rows. Primary-key, uniqueness and foreign-key
  constraints are not modelled: a statement is taken on rows that satisfy them.
\<close>

type_synonym uuid = nat
type_synonym date = int
type_synonym timestamptz = int
type_synonym decimal = int

datatype user_role = Admin | Client | Trainer
datatype membership_status = Active | Expired | Cancelled
datatype payment_status = Pending | Completed | Failed

record users_row =
  u_id :: uuid
  u_role :: user_role
  u_created_at :: timestamptz
  u_updated_at :: timestamptz

record profiles_row =
  p_id :: uuid
  p_full_name :: string
  p_email :: string
  p_phone :: "string option"
  p_height :: "decimal option"
  p_weight :: "decimal option"
  p_date_of_birth :: "date option"
  p_emergency_contact :: "string option"
  p_medical_conditions :: "string option"
  p_created_at :: timestamptz
  p_updated_at :: timestamptz

record memberships_row =
  m_id :: uuid
  m_name :: string
  m_description :: "string option"
  m_duration_months :: int
  m_price :: decimal
  m_created_at :: timestamptz
  m_updated_at :: timestamptz

record user_memberships_row =
  um_id :: uuid
  um_user_id :: "uuid option"
  um_membership_id :: "uuid option"
  um_trainer_id :: "uuid option"
  um_start_date :: date
  um_end_date :: date
  um_status :: membership_status
  um_created_at :: timestamptz
  um_updated_at :: timestamptz

record workouts_row =
  w_id :: uuid
  w_name :: string
  w_description :: "string option"
  w_difficulty_level :: "int option"
  w_duration_minutes :: int
  w_exercises :: string
  w_created_at :: timestamptz
  w_updated_at :: timestamptz

record user_workouts_row =
  uw_id :: uuid
  uw_user_id :: "uuid option"
  uw_workout_id :: "uuid option"
  uw_trainer_id :: "uuid option"
  uw_assigned_date :: date
  uw_completed_date :: "date option"
  uw_notes :: "string option"
  uw_created_at :: timestamptz
  uw_updated_at :: timestamptz

record payments_row =
  pay_id :: uuid
  pay_user_id :: "uuid option"
  pay_membership_id :: "uuid option"
  pay_amount :: decimal
  pay_payment_date :: date
  pay_status :: payment_status
  pay_payment_method :: string
  pay_transaction_id :: "string option"
  pay_created_at :: timestamptz
  pay_updated_at :: timestamptz

text \<open>
  The migration never creates \<open>audit_logs\<close>; the trigger function \<open>log_user_changes\<close>
  inserts into it. The table is taken to exist with exactly the six columns that the
  INSERT names, all of them nullable. \<open>row_to_json\<close> is injective on rows of one table,
  so a JSON document is represented by the row it encodes.
\<close>

record audit_logs_row =
  al_table_name :: "string option"
  al_record_id :: "uuid option"
  al_action :: "string option"
  al_old_data :: "users_row option"
  al_new_data :: "users_row option"
  al_changed_by :: "uuid option"

record db =
  users :: "users_row list"
  profiles :: "profiles_row list"
  memberships :: "memberships_row list"
  user_memberships :: "user_memberships_row list"
  workouts :: "workouts_row list"
  user_workouts :: "user_workouts_row list"
  payments :: "payments_row list"
  audit_logs :: "audit_logs_row list"

definition empty_db :: db where
  "empty_db = \<lparr>users = [], profiles = [], memberships = [], user_memberships = [],
     workouts = [], user_workouts = [], payments = [], audit_logs = []\<rparr>"

subsection \<open>SQL's three-valued conditions\<close>

text \<open>
  A condition evaluates to true, false or NULL (\<open>None\<close>). A comparison with a NULL
  operand is NULL; a WHERE clause keeps a row only when its condition is true.
\<close>

definition sql_eq :: "'a option \<Rightarrow> 'a option \<Rightarrow> bool option" where
  "sql_eq a b = (case a of None \<Rightarrow> None
                 | Some x \<Rightarrow> (case b of None \<Rightarrow> None | Some y \<Rightarrow> Some (x = y)))"

definition sql_and :: "bool option \<Rightarrow> bool option \<Rightarrow> bool option" where
  "sql_and p q =
     (if p = Some False \<or> q = Some False then Some False
      else if p = Some True \<and> q = Some True then Some True
      else None)"

definition sql_true :: "bool option \<Rightarrow> bool" where
  "sql_true p = (p = Some True)"

text \<open>\<open>UPDATE t SET ... WHERE c\<close>: the rows on which \<open>c\<close> is true are replaced, in place.\<close>

definition sql_update :: "('r \<Rightarrow> bool option) \<Rightarrow> ('r \<Rightarrow> 'r) \<Rightarrow> 'r list \<Rightarrow> 'r list" where
  "sql_update c s t = map (\<lambda>r. if sql_true (c r) then s r else r) t"

text \<open>\<open>SELECT COUNT( * ) FROM t WHERE c\<close>.\<close>

definition sql_count :: "('r \<Rightarrow> bool option) \<Rightarrow> 'r list \<Rightarrow> nat" where
  "sql_count c t = length (filter (\<lambda>r. sql_true (c r)) t)"

subsection \<open>Stored procedure \<open>update_membership_status\<close>\<close>

text \<open>
  \<^verbatim>\<open>UPDATE user_memberships SET status = 'expired'
  WHERE end_date < CURRENT_DATE AND status = 'active';\<close>
  Both columns are NOT NULL. \<open>CURRENT_DATE\<close> is the argument \<open>today\<close>.
\<close>

definition update_membership_status :: "date \<Rightarrow> db \<Rightarrow> db" where
  "update_membership_status today d =
     d\<lparr>user_memberships :=
         sql_update (\<lambda>r. sql_and (Some (um_end_date r < today)) (Some (um_status r = Active)))
                    (\<lambda>r. r\<lparr>um_status := Expired\<rparr>)
                    (user_memberships d)\<rparr>"

subsection \<open>Trigger \<open>payment_status_trigger\<close>\<close>

text \<open>
  The trigger function \<open>update_membership_status_on_payment\<close>, run for one row:
  \<^verbatim>\<open>IF NEW.status = 'completed' THEN
    UPDATE user_memberships SET status = 'active'
    WHERE user_id = NEW.user_id AND membership_id = NEW.membership_id;
  END IF;\<close>
  \<open>user_id\<close> and \<open>membership_id\<close> are nullable in both tables, so the two
  comparisons are three-valued. The function reads \<open>NEW\<close> only.
\<close>

definition update_membership_status_on_payment :: "payments_row \<Rightarrow> db \<Rightarrow> db" where
  "update_membership_status_on_payment NEW d =
     (if pay_status NEW = Completed then
        d\<lparr>user_memberships :=
            sql_update (\<lambda>r. sql_and (sql_eq (um_user_id r) (pay_user_id NEW))
                                   (sql_eq (um_membership_id r) (pay_membership_id NEW)))
                       (\<lambda>r. r\<lparr>um_status := Active\<rparr>)
                       (user_memberships d)\<rparr>
      else d)"

text \<open>
  \<^verbatim>\<open>CREATE TRIGGER payment_status_trigger AFTER UPDATE ON payments
  FOR EACH ROW EXECUTE FUNCTION update_membership_status_on_payment();\<close>
  An \<open>UPDATE payments SET ... WHERE c\<close> replaces the rows on which \<open>c\<close> is true and
  then runs the trigger function once for each of them, with the replaced row as
  \<open>NEW\<close>. No trigger is declared for INSERT on \<open>payments\<close>.
\<close>

definition update_payments ::
    "(payments_row \<Rightarrow> bool option) \<Rightarrow> (payments_row \<Rightarrow> payments_row) \<Rightarrow> db \<Rightarrow> db" where
  "update_payments c s d =
     fold (\<lambda>p. update_membership_status_on_payment (s p))
          (filter (\<lambda>p. sql_true (c p)) (payments d))
          (d\<lparr>payments := sql_update c s (payments d)\<rparr>)"

definition insert_payments :: "payments_row \<Rightarrow> db \<Rightarrow> db" where
  "insert_payments p d = d\<lparr>payments := payments d @ [p]\<rparr>"

text \<open>
  Two nullable keys are the same key when both are present and equal; a NULL key is the
  same as nothing, as in the comparison of the WHERE clause. A payment row \<open>pays_for\<close> a
  membership row when its status is \<open>completed\<close> and both keys are the same.
\<close>

definition same_key :: "uuid option \<Rightarrow> uuid option \<Rightarrow> bool" where
  "same_key a b = (a \<noteq> None \<and> a = b)"

definition pays_for :: "payments_row \<Rightarrow> user_memberships_row \<Rightarrow> bool" where
  "pays_for NEW r =
     (pay_status NEW = Completed
      \<and> same_key (um_user_id r) (pay_user_id NEW)
      \<and> same_key (um_membership_id r) (pay_membership_id NEW))"

subsection \<open>Trigger \<open>trainer_availability_trigger\<close>\<close>

text \<open>
  \<^verbatim>\<open>IF (SELECT COUNT( * ) FROM user_memberships
      WHERE trainer_id = NEW.trainer_id AND status = 'active') >= 10 THEN
    RAISE EXCEPTION 'Trainer has reached maximum client capacity';
  END IF;
  RETURN NEW;\<close>
  The trigger runs BEFORE INSERT ON \<open>user_memberships\<close>, for each row; an exception
  aborts the INSERT.
\<close>

datatype sql_error = Exception string

definition active_clients :: "uuid option \<Rightarrow> db \<Rightarrow> nat" where
  "active_clients t d =
     sql_count (\<lambda>r. sql_and (sql_eq (um_trainer_id r) t) (Some (um_status r = Active)))
               (user_memberships d)"

definition check_trainer_availability ::
    "user_memberships_row \<Rightarrow> db \<Rightarrow> sql_error + user_memberships_row" where
  "check_trainer_availability NEW d =
     (if active_clients (um_trainer_id NEW) d \<ge> 10
      then Inl (Exception ''Trainer has reached maximum client capacity'')
      else Inr NEW)"

definition insert_user_memberships :: "user_memberships_row \<Rightarrow> db \<Rightarrow> sql_error + db" where
  "insert_user_memberships r d =
     (case check_trainer_availability r d of
        Inl e \<Rightarrow> Inl e
      | Inr NEW \<Rightarrow> Inr (d\<lparr>user_memberships := user_memberships d @ [NEW]\<rparr>))"

subsection \<open>Trigger \<open>user_changes_trigger\<close>\<close>

text \<open>
  \<^verbatim>\<open>INSERT INTO audit_logs (table_name, record_id, action, old_data, new_data, changed_by)
  VALUES (TG_TABLE_NAME, NEW.id, TG_OP, row_to_json(OLD), row_to_json(NEW), auth.uid());
  RETURN NEW;\<close>
  The trigger runs AFTER INSERT OR UPDATE OR DELETE ON \<open>users\<close>, for each row, so
  \<open>TG_TABLE_NAME\<close> is \<open>users\<close>. In a row-level trigger \<open>OLD\<close> is null for INSERT and
  \<open>NEW\<close> is null for DELETE; a field of a null record is NULL and \<open>row_to_json\<close> of
  it is NULL. \<open>auth.uid()\<close> is the id of the authenticated user of the session, NULL
  when there is none. The value returned by an AFTER trigger is ignored.
\<close>

datatype tg_op = INSERT | UPDATE | DELETE

fun tg_op_text :: "tg_op \<Rightarrow> string" where
  "tg_op_text INSERT = ''INSERT''"
| "tg_op_text UPDATE = ''UPDATE''"
| "tg_op_text DELETE = ''DELETE''"

definition log_user_changes ::
    "tg_op \<Rightarrow> users_row option \<Rightarrow> users_row option \<Rightarrow> uuid option \<Rightarrow> db \<Rightarrow> db" where
  "log_user_changes TG_OP OLD NEW auth_uid d =
     d\<lparr>audit_logs := audit_logs d @
        [\<lparr>al_table_name = Some ''users'',
          al_record_id = map_option u_id NEW,
          al_action = Some (tg_op_text TG_OP),
          al_old_data = OLD,
          al_new_data = NEW,
          al_changed_by = auth_uid\<rparr>]\<rparr>"

text \<open>
  The three statements on \<open>users\<close>, each followed by the trigger function for every
  affected row. DELETE removes the rows on which its condition is true.
\<close>

definition insert_users :: "users_row \<Rightarrow> uuid option \<Rightarrow> db \<Rightarrow> db" where
  "insert_users r auth_uid d =
     log_user_changes INSERT None (Some r) auth_uid (d\<lparr>users := users d @ [r]\<rparr>)"

definition update_users ::
    "(users_row \<Rightarrow> bool option) \<Rightarrow> (users_row \<Rightarrow> users_row) \<Rightarrow> uuid option \<Rightarrow> db \<Rightarrow> db" where
  "update_users c s auth_uid d =
     fold (\<lambda>r. log_user_changes UPDATE (Some r) (Some (s r)) auth_uid)
          (filter (\<lambda>r. sql_true (c r)) (users d))
          (d\<lparr>users := sql_update c s (users d)\<rparr>)"

definition delete_users :: "(users_row \<Rightarrow> bool option) \<Rightarrow> uuid option \<Rightarrow> db \<Rightarrow> db" where
  "delete_users c auth_uid d =
     fold (\<lambda>r. log_user_changes DELETE (Some r) None auth_uid)
          (filter (\<lambda>r. sql_true (c r)) (users d))
          (d\<lparr>users := filter (\<lambda>r. \<not> sql_true (c r)) (users d)\<rparr>)"

subsection \<open>Database operations and reachable states\<close>

text \<open>
  The statements that the migration defines behaviour for. A statement that raises is
  rolled back and leaves the database as it was.
\<close>

datatype db_op =
    Insert_user_memberships user_memberships_row
  | Insert_payments payments_row
  | Update_payments "payments_row \<Rightarrow> bool option" "payments_row \<Rightarrow> payments_row"
  | Call_update_membership_status date

fun exec :: "db_op \<Rightarrow> db \<Rightarrow> sql_error + db" where
  "exec (Insert_user_memberships r) d = insert_user_memberships r d"
| "exec (Insert_payments p) d = Inr (insert_payments p d)"
| "exec (Update_payments c s) d = Inr (update_payments c s d)"
| "exec (Call_update_membership_status today) d = Inr (update_membership_status today d)"

definition step :: "db_op \<Rightarrow> db \<Rightarrow> db" where
  "step x d = (case exec x d of Inl e \<Rightarrow> d | Inr d' \<Rightarrow> d')"

definition run :: "db_op list \<Rightarrow> db" where
  "run xs = fold step xs empty_db"

subsection \<open>Views\<close>

text \<open>
  \<^verbatim>\<open>CREATE VIEW active_memberships AS
  SELECT um.id, p.full_name as user_name, m.name as membership_name,
         um.start_date, um.end_date, t.full_name as trainer_name
  FROM user_memberships um
  JOIN profiles p ON um.user_id = p.id
  JOIN memberships m ON um.membership_id = m.id
  LEFT JOIN profiles t ON um.trainer_id = t.id
  WHERE um.status = 'active';\<close>
\<close>

record active_memberships_row =
  am_id :: uuid
  am_user_name :: string
  am_membership_name :: string
  am_start_date :: date
  am_end_date :: date
  am_trainer_name :: "string option"

definition left_join :: "('r \<Rightarrow> bool option) \<Rightarrow> 'r list \<Rightarrow> 'r option list" where
  "left_join c t = (case filter (\<lambda>r. sql_true (c r)) t of [] \<Rightarrow> [None] | rs \<Rightarrow> map Some rs)"

definition active_memberships :: "db \<Rightarrow> active_memberships_row list" where
  "active_memberships d =
     [\<lparr>am_id = um_id um, am_user_name = p_full_name p, am_membership_name = m_name m,
       am_start_date = um_start_date um, am_end_date = um_end_date um,
       am_trainer_name = map_option p_full_name t\<rparr>.
      um \<leftarrow> user_memberships d,
      p \<leftarrow> profiles d, sql_true (sql_eq (um_user_id um) (Some (p_id p))),
      m \<leftarrow> memberships d, sql_true (sql_eq (um_membership_id um) (Some (m_id m))),
      t \<leftarrow> left_join (\<lambda>t. sql_eq (um_trainer_id um) (Some (p_id t))) (profiles d),
      um_status um = Active]"

text \<open>
  \<^verbatim>\<open>CREATE VIEW upcoming_renewals AS
  SELECT p.full_name, p.email, m.name as membership_plan, um.end_date,
         m.price as renewal_amount
  FROM user_memberships um
  JOIN profiles p ON um.user_id = p.id
  JOIN memberships m ON um.membership_id = m.id
  WHERE um.end_date BETWEEN CURRENT_DATE AND (CURRENT_DATE + INTERVAL '30 days')
  AND um.status = 'active';\<close>
\<close>

record upcoming_renewals_row =
  ur_full_name :: string
  ur_email :: string
  ur_membership_plan :: string
  ur_end_date :: date
  ur_renewal_amount :: decimal

definition upcoming_renewals :: "date \<Rightarrow> db \<Rightarrow> upcoming_renewals_row list" where
  "upcoming_renewals today d =
     [\<lparr>ur_full_name = p_full_name p, ur_email = p_email p, ur_membership_plan = m_name m,
       ur_end_date = um_end_date um, ur_renewal_amount = m_price m\<rparr>.
      um \<leftarrow> user_memberships d,
      p \<leftarrow> profiles d, sql_true (sql_eq (um_user_id um) (Some (p_id p))),
      m \<leftarrow> memberships d, sql_true (sql_eq (um_membership_id um) (Some (m_id m))),
      today \<le> um_end_date um \<and> um_end_date um \<le> today + 30,
      um_status um = Active]"

text \<open>The column names of the relations that the pages query.\<close>

definition profiles_columns :: "string list" where
  "profiles_columns = [''id'', ''full_name'', ''email'', ''phone'', ''height'', ''weight'',
     ''date_of_birth'', ''emergency_contact'', ''medical_conditions'', ''created_at'',
     ''updated_at'']"

definition user_memberships_columns :: "string list" where
  "user_memberships_columns = [''id'', ''user_id'', ''membership_id'', ''trainer_id'',
     ''start_date'', ''end_date'', ''status'', ''created_at'', ''updated_at'']"

definition user_workouts_columns :: "string list" where
  "user_workouts_columns = [''id'', ''user_id'', ''workout_id'', ''trainer_id'',
     ''assigned_date'', ''completed_date'', ''notes'', ''created_at'', ''updated_at'']"

definition payments_columns :: "string list" where
  "payments_columns = [''id'', ''user_id'', ''membership_id'', ''amount'', ''payment_date'',
     ''status'', ''payment_method'', ''transaction_id'', ''created_at'', ''updated_at'']"

definition active_memberships_columns :: "string list" where
  "active_memberships_columns = [''id'', ''user_name'', ''membership_name'', ''start_date'',
     ''end_date'', ''trainer_name'']"

definition upcoming_renewals_columns :: "string list" where
  "upcoming_renewals_columns = [''full_name'', ''email'', ''membership_plan'', ''end_date'',
     ''renewal_amount'']"

section \<open>Form validation (lib/schemas)\<close>

text \<open>
  A JavaScript string is the list of its code units, so \<open>length\<close> is its \<open>.length\<close>.
  A property that may be \<open>undefined\<close> holds an \<open>option\<close>. A number is NaN, an infinity
  or a real; a \<open>Date\<close> is invalid or a day. The pattern behind \<open>.email()\<close> belongs to the
  validation library and is the parameter \<open>is_email\<close>.
\<close>

datatype js_number = NaN | Infinity | Neg_Infinity | Num real
datatype js_date = Invalid_Date | Date_of date

datatype zod_issue = Issue string string

record login_input =
  li_email :: string
  li_password :: string

record registration_input =
  ri_email :: string
  ri_password :: string
  ri_fullName :: string
  ri_phone :: "string option"
  ri_height :: "js_number option"
  ri_weight :: "js_number option"
  ri_dateOfBirth :: "js_date option"
  ri_emergencyContact :: "string option"
  ri_medicalConditions :: "string option"

text \<open>Each check yields the issues it raises for the value at a path.\<close>

definition z_string_email :: "(string \<Rightarrow> bool) \<Rightarrow> string \<Rightarrow> string \<Rightarrow> string \<Rightarrow> zod_issue list" where
  "z_string_email is_email msg path v = (if is_email v then [] else [Issue path msg])"

definition z_string_min :: "nat \<Rightarrow> string \<Rightarrow> string \<Rightarrow> string \<Rightarrow> zod_issue list" where
  "z_string_min n msg path v = (if length v < n then [Issue path msg] else [])"

definition z_string :: "string \<Rightarrow> string \<Rightarrow> zod_issue list" where
  "z_string path v = []"

fun z_number_positive :: "string \<Rightarrow> string \<Rightarrow> js_number \<Rightarrow> zod_issue list" where
  "z_number_positive msg path NaN = [Issue path ''Expected number, received nan'']"
| "z_number_positive msg path Infinity = []"
| "z_number_positive msg path Neg_Infinity = [Issue path msg]"
| "z_number_positive msg path (Num x) = (if x \<le> 0 then [Issue path msg] else [])"

fun z_date :: "string \<Rightarrow> js_date \<Rightarrow> zod_issue list" where
  "z_date path Invalid_Date = [Issue path ''Invalid date'']"
| "z_date path (Date_of t) = []"

definition z_optional :: "(string \<Rightarrow> 'a \<Rightarrow> zod_issue list) \<Rightarrow> string \<Rightarrow> 'a option \<Rightarrow> zod_issue list" where
  "z_optional check path v = (case v of None \<Rightarrow> [] | Some x \<Rightarrow> check path x)"

definition loginSchema :: "(string \<Rightarrow> bool) \<Rightarrow> login_input \<Rightarrow> zod_issue list" where
  "loginSchema is_email x =
     z_string_email is_email ''Invalid email address'' ''email'' (li_email x)
     @ z_string_min 8 ''Password must be at least 8 characters'' ''password'' (li_password x)"

definition registrationSchema :: "(string \<Rightarrow> bool) \<Rightarrow> registration_input \<Rightarrow> zod_issue list" where
  "registrationSchema is_email x =
     z_string_email is_email ''Invalid email address'' ''email'' (ri_email x)
     @ z_string_min 8 ''Password must be at least 8 characters'' ''password'' (ri_password x)
     @ z_string_min 2 ''Full name must be at least 2 characters'' ''fullName'' (ri_fullName x)
     @ z_optional z_string ''phone'' (ri_phone x)
     @ z_optional (z_number_positive ''Height must be positive'') ''height'' (ri_height x)
     @ z_optional (z_number_positive ''Weight must be positive'') ''weight'' (ri_weight x)
     @ z_optional z_date ''dateOfBirth'' (ri_dateOfBirth x)
     @ z_optional z_string ''emergencyContact'' (ri_emergencyContact x)
     @ z_optional z_string ''medicalConditions'' (ri_medicalConditions x)"

text \<open>\<open>schema.parse(x)\<close> returns the data when no issue was raised and throws them otherwise.\<close>

definition parse :: "('a \<Rightarrow> zod_issue list) \<Rightarrow> 'a \<Rightarrow> zod_issue list + 'a" where
  "parse schema x = (let issues = schema x in if issues = [] then Inr x else Inl issues)"

text \<open>What the validation is meant to accept, in the words of its messages.\<close>

fun strictly_positive :: "js_number \<Rightarrow> bool" where
  "strictly_positive NaN = False"
| "strictly_positive Infinity = True"
| "strictly_positive Neg_Infinity = False"
| "strictly_positive (Num x) = (0 < x)"

section \<open>Pages\<close>

text \<open>
  A call of the hosted service's SDK resolves to a value or to an error object with a
  message. A handler is modelled by the list of what it does, in order: the SDK calls
  it makes, each with the error it got back, the dialogs it opens, the navigation and
  the console output. The answers of the service are parameters of the handler.
\<close>

datatype sdk_error = SdkError string

datatype thrown = Zod "zod_issue list" | Sdk sdk_error

datatype swal_icon = Success_icon | Error_icon

datatype swal_text = Plain string | Issues_json "zod_issue list"

datatype sdk_call =
    SignInWithPassword | SelectRole
  | SignUp | InsertUsers | InsertProfiles
  | GetUser | SelectProfile | SelectActiveMembership | SelectUserWorkouts
  | CountProfiles | CountActive | SelectRevenue | CountRenewals | SelectRecentMembers

datatype ui_event =
    SetLoading bool
  | Call sdk_call "sdk_error option"
  | Console_log
  | Console_error
  | Swal_fire swal_icon string swal_text
  | Navigate string

text \<open>
  \<open>error.message || fallback\<close>. The message of a validation error is the JSON text of
  its issues, which is never empty; the message of an SDK error is a string, and the
  empty string is falsy.
\<close>

fun message_or :: "thrown \<Rightarrow> string \<Rightarrow> swal_text" where
  "message_or (Zod issues) fallback = Issues_json issues"
| "message_or (Sdk (SdkError m)) fallback = (if m = [] then Plain fallback else Plain m)"

subsection \<open>\<open>LoginPage.handleSubmit\<close>\<close>

record login_sdk =
  signInWithPassword :: "login_input \<Rightarrow> sdk_error + uuid"
  select_role :: "uuid \<Rightarrow> sdk_error + user_role"

text \<open>The body of \<open>try\<close>: what it did, and what it threw, if anything.\<close>

definition login_try ::
    "(string \<Rightarrow> bool) \<Rightarrow> login_sdk \<Rightarrow> login_input \<Rightarrow> ui_event list \<times> thrown option" where
  "login_try is_email sdk formData =
     (case parse (loginSchema is_email) formData of
        Inl issues \<Rightarrow> ([], Some (Zod issues))
      | Inr validatedData \<Rightarrow>
          (case signInWithPassword sdk validatedData of
             Inl error \<Rightarrow> ([Call SignInWithPassword (Some error)], Some (Sdk error))
           | Inr user_id \<Rightarrow>
               (case select_role sdk user_id of
                  Inl e \<Rightarrow>
                    ([Call SignInWithPassword None, Call SelectRole (Some e),
                      Console_log, Console_log, Console_log, Navigate ''/dashboard''], None)
                | Inr role \<Rightarrow>
                    ([Call SignInWithPassword None, Call SelectRole None,
                      Console_log, Console_log, Console_log,
                      Navigate (if role = Admin then ''/admin'' else ''/dashboard'')], None))))"

definition login_handleSubmit ::
    "(string \<Rightarrow> bool) \<Rightarrow> login_sdk \<Rightarrow> login_input \<Rightarrow> ui_event list" where
  "login_handleSubmit is_email sdk formData =
     (let (events, thrown) = login_try is_email sdk formData in
      [SetLoading True] @ events
      @ (case thrown of
           None \<Rightarrow> []
         | Some error \<Rightarrow>
             [Swal_fire Error_icon ''Login Failed''
                (message_or error ''Please check your credentials and try again.'')])
      @ [SetLoading False])"

subsection \<open>\<open>RegisterPage.handleSubmit\<close>\<close>

text \<open>
  The form holds strings. An empty \<open>height\<close>, \<open>weight\<close> or \<open>dateOfBirth\<close> is passed to
  the schema as \<open>undefined\<close>, any other through \<open>parseFloat\<close> or \<open>new Date\<close>, which are
  parameters; the remaining fields are passed as they are.
\<close>

record register_form =
  rf_email :: string
  rf_password :: string
  rf_fullName :: string
  rf_phone :: string
  rf_height :: string
  rf_weight :: string
  rf_dateOfBirth :: string
  rf_emergencyContact :: string
  rf_medicalConditions :: string

record js_lib =
  lib_is_email :: "string \<Rightarrow> bool"
  parseFloat :: "string \<Rightarrow> js_number"
  new_Date :: "string \<Rightarrow> js_date"

definition registration_input_of :: "js_lib \<Rightarrow> register_form \<Rightarrow> registration_input" where
  "registration_input_of lib formData =
     \<lparr>ri_email = rf_email formData,
      ri_password = rf_password formData,
      ri_fullName = rf_fullName formData,
      ri_phone = Some (rf_phone formData),
      ri_height = (if rf_height formData \<noteq> [] then Some (parseFloat lib (rf_height formData)) else None),
      ri_weight = (if rf_weight formData \<noteq> [] then Some (parseFloat lib (rf_weight formData)) else None),
      ri_dateOfBirth =
        (if rf_dateOfBirth formData \<noteq> [] then Some (new_Date lib (rf_dateOfBirth formData)) else None),
      ri_emergencyContact = Some (rf_emergencyContact formData),
      ri_medicalConditions = Some (rf_medicalConditions formData)\<rparr>"

record register_sdk =
  signUp :: "string \<Rightarrow> string \<Rightarrow> sdk_error + uuid"
  insert_users_row :: "uuid \<Rightarrow> user_role \<Rightarrow> sdk_error option"
  insert_profiles_row :: "uuid \<Rightarrow> registration_input \<Rightarrow> sdk_error option"

definition register_try ::
    "js_lib \<Rightarrow> register_sdk \<Rightarrow> register_form \<Rightarrow> ui_event list \<times> thrown option" where
  "register_try lib sdk formData =
     (case parse (registrationSchema (lib_is_email lib)) (registration_input_of lib formData) of
        Inl issues \<Rightarrow> ([], Some (Zod issues))
      | Inr validatedData \<Rightarrow>
          (case signUp sdk (ri_email validatedData) (ri_password validatedData) of
             Inl authError \<Rightarrow> ([Call SignUp (Some authError), Console_log], Some (Sdk authError))
           | Inr user_id \<Rightarrow>
               (let userRegister = insert_users_row sdk user_id Client;
                    profileError = insert_profiles_row sdk user_id validatedData;
                    calls = [Call SignUp None, Console_log, Call InsertUsers userRegister,
                             Call InsertProfiles profileError]
                in case profileError of
                     Some e \<Rightarrow> (calls, Some (Sdk e))
                   | None \<Rightarrow>
                       (calls @
                        [Swal_fire Success_icon ''Registration Successful''
                           (Plain ''Welcome to FitHub! You can now log in.''),
                         Navigate ''/login''], None))))"

definition register_handleSubmit ::
    "js_lib \<Rightarrow> register_sdk \<Rightarrow> register_form \<Rightarrow> ui_event list" where
  "register_handleSubmit lib sdk formData =
     (let (events, thrown) = register_try lib sdk formData in
      [SetLoading True] @ events
      @ (case thrown of
           None \<Rightarrow> []
         | Some error \<Rightarrow>
             [Swal_fire Error_icon ''Registration Failed''
                (message_or error ''Please check your information and try again.'')])
      @ [SetLoading False])"

subsection \<open>Queries through the SDK\<close>

text \<open>
  A query resolves to an object with the properties \<open>data\<close>, \<open>error\<close> and \<open>count\<close>.
  A query that names a column which the relation does not have is answered with an
  error and \<open>data\<close> null. \<open>count\<close> is set only when the query asks for it
  (\<open>{ count: 'exact' }\<close>).

  Row-level security is enabled on every table, and the policies of most tables are
  not part of the migration. What the policies let the session of the caller see is a
  parameter: one predicate on the rows of each table that the pages query. The views
  run with the rights of their owner and see every row.

  \<open>ORDER BY\<close> leaves open in which order rows with equal keys are returned, and so
  which of them a \<open>LIMIT\<close> keeps. That choice is a parameter too: \<open>tie_break\<close> ranks
  the rows of \<open>user_workouts\<close>, and rows with equal keys come back by rank. Every order
  that the database may return arises from some ranking.
\<close>

record session =
  sees_profile :: "profiles_row \<Rightarrow> bool"
  sees_user_membership :: "user_memberships_row \<Rightarrow> bool"
  sees_payment :: "payments_row \<Rightarrow> bool"
  sees_user_workout :: "user_workouts_row \<Rightarrow> bool"
  sees_workout :: "workouts_row \<Rightarrow> bool"
  tie_break :: "user_workouts_row \<Rightarrow> int"

record 'a response =
  r_data :: "'a option"
  r_error :: "sdk_error option"
  r_count :: "nat option"

definition failed :: "string \<Rightarrow> 'a response" where
  "failed msg = \<lparr>r_data = None, r_error = Some (SdkError msg), r_count = None\<rparr>"

definition select_rows :: "string list \<Rightarrow> string list \<Rightarrow> bool \<Rightarrow> 'r list \<Rightarrow> 'r list response" where
  "select_rows columns named exact rows =
     (if set named \<subseteq> set columns
      then \<lparr>r_data = Some rows, r_error = None,
            r_count = (if exact then Some (length rows) else None)\<rparr>
      else failed ''column does not exist'')"

text \<open>\<open>.single()\<close>: exactly one row, or an error.\<close>

definition postgrest_single :: "'r list response \<Rightarrow> 'r response" where
  "postgrest_single r =
     (case r_data r of
        None \<Rightarrow> \<lparr>r_data = None, r_error = r_error r, r_count = None\<rparr>
      | Some [x] \<Rightarrow> \<lparr>r_data = Some x, r_error = None, r_count = r_count r\<rparr>
      | Some _ \<Rightarrow> failed ''JSON object requested, multiple (or no) rows returned'')"

text \<open>
  The rows of a view as JSON objects: the list of their properties. A query projects
  them on the selected columns and keeps those that pass its \<open>.eq\<close> filters.
\<close>

datatype js_value = Null | Str string | Uuid uuid | Date_v date | Number decimal

type_synonym js_object = "(string \<times> js_value) list"

definition active_memberships_object :: "active_memberships_row \<Rightarrow> js_object" where
  "active_memberships_object r =
     [(''id'', Uuid (am_id r)), (''user_name'', Str (am_user_name r)),
      (''membership_name'', Str (am_membership_name r)),
      (''start_date'', Date_v (am_start_date r)), (''end_date'', Date_v (am_end_date r)),
      (''trainer_name'', (case am_trainer_name r of None \<Rightarrow> Null | Some n \<Rightarrow> Str n))]"

definition select_objects ::
    "string list \<Rightarrow> string list \<Rightarrow> (string \<times> js_value) list \<Rightarrow> js_object list
     \<Rightarrow> js_object list response" where
  "select_objects columns selected eqs rows =
     (if set selected \<union> set (map fst eqs) \<subseteq> set columns
      then \<lparr>r_data = Some (map (filter (\<lambda>(c, v). c \<in> set selected))
                            (filter (\<lambda>r. list_all (\<lambda>(c, v). map_of r c = Some v) eqs) rows)),
            r_error = None, r_count = None\<rparr>
      else failed ''column does not exist'')"

text \<open>Truthiness of a JSON value; a UUID and a date arrive as non-empty strings.\<close>

fun truthy :: "js_value option \<Rightarrow> bool" where
  "truthy None = False"
| "truthy (Some Null) = False"
| "truthy (Some (Str v)) = (v \<noteq> [])"
| "truthy (Some (Uuid u)) = True"
| "truthy (Some (Date_v t)) = True"
| "truthy (Some (Number n)) = (n \<noteq> 0)"

subsection \<open>\<open>AdminDashboard.fetchDashboardData\<close>\<close>

record DashboardStats =
  totalMembers :: nat
  activeMembers :: nat
  totalRevenue :: real
  upcomingRenewals :: nat

text \<open>
  Each query is destructured as \<open>const { data: x }\<close>, so \<open>x\<close> is the array of rows or
  null, and the statistics read \<open>x?.count || 0\<close>. An array has no property \<open>count\<close>:
  the property access is \<open>undefined\<close> on every array.

  An amount arrives as a JavaScript number, the double nearest to the DECIMAL value,
  and \<open>sum + payment.amount\<close> is the addition of doubles, which rounds. Both are
  parameters: \<open>double_of\<close> and \<open>double_add\<close>. A double is the real number it stands
  for; sums of amounts are finite.

  The function computes the statistics first and the list of recent members
  afterwards; only the statistics and the calls are modelled.
\<close>

record doubles =
  double_of :: "decimal \<Rightarrow> real"
  double_add :: "real \<Rightarrow> real \<Rightarrow> real"

definition or_zero_number :: "real \<Rightarrow> real" where
  "or_zero_number x = (if x = 0 then 0 else x)"

definition array_count :: "'r list \<Rightarrow> nat option" where
  "array_count rows = None"

definition or_zero :: "nat option \<Rightarrow> nat" where
  "or_zero v = (case v of None \<Rightarrow> 0 | Some n \<Rightarrow> n)"

definition fetchDashboardData ::
    "session \<Rightarrow> doubles \<Rightarrow> date \<Rightarrow> db \<Rightarrow> DashboardStats \<times> ui_event list" where
  "fetchDashboardData ses fp today d =
     (let membersCount =
            select_rows profiles_columns [''id''] True (filter (sees_profile ses) (profiles d));
          activeMemberships =
            select_rows user_memberships_columns [''id'', ''status''] True
              (filter (\<lambda>r. um_status r = Active)
                 (filter (sees_user_membership ses) (user_memberships d)));
          revenue =
            select_rows payments_columns [''amount'', ''status''] False
              (filter (\<lambda>p. pay_status p = Completed)
                 (filter (sees_payment ses) (payments d)));
          renewals =
            select_rows upcoming_renewals_columns [''id''] True (upcoming_renewals today d);
          recentMembers =
            select_objects active_memberships_columns
              [''user_id'', ''profiles'', ''membership_name'', ''trainer_name'', ''end_date''] []
              (map active_memberships_object (active_memberships d))
      in (\<lparr>totalMembers = or_zero (Option.bind (r_data membersCount) array_count),
           activeMembers = or_zero (Option.bind (r_data activeMemberships) array_count),
           totalRevenue =
             (case r_data revenue of
                None \<Rightarrow> 0
              | Some rows \<Rightarrow>
                  or_zero_number
                    (fold (\<lambda>payment sum. double_add fp sum (double_of fp (pay_amount payment)))
                       rows 0)),
           upcomingRenewals = or_zero (Option.bind (r_data renewals) array_count)\<rparr>,
          [Call CountProfiles (r_error membersCount),
           Call CountActive (r_error activeMemberships),
           Call SelectRevenue (r_error revenue),
           Call CountRenewals (r_error renewals),
           Call SelectRecentMembers (r_error recentMembers),
           SetLoading False]))"

subsection \<open>\<open>ClientDashboard\<close>\<close>

record UserProfile =
  up_full_name :: string
  up_email :: string

record Workout =
  wo_name :: string
  wo_assigned_date :: date
  wo_completed_date :: "date option"
  wo_exercises :: string

record client_state =
  cs_profile :: "UserProfile option"
  cs_membership :: "js_object option"
  cs_workouts :: "Workout list"
  cs_loading :: bool

definition initial_state :: client_state where
  "initial_state = \<lparr>cs_profile = None, cs_membership = None, cs_workouts = [], cs_loading = True\<rparr>"

text \<open>
  A row of \<open>user_workouts\<close> arrives with its workout embedded through \<open>workout_id\<close>,
  null when there is none that the session sees; reading \<open>w.workouts.name\<close> then
  throws, which is \<open>None\<close>.
\<close>

definition to_workout :: "session \<Rightarrow> db \<Rightarrow> user_workouts_row \<Rightarrow> Workout option" where
  "to_workout ses d w =
     (case find (\<lambda>x. sql_true (sql_eq (uw_workout_id w) (Some (w_id x))))
             (filter (sees_workout ses) (workouts d)) of
        None \<Rightarrow> None
      | Some x \<Rightarrow>
          Some \<lparr>wo_name = w_name x, wo_assigned_date = uw_assigned_date w,
                wo_completed_date = uw_completed_date w, wo_exercises = w_exercises x\<rparr>)"

text \<open>
  \<^verbatim>\<open>supabase.from('user_workouts').select(`workouts (name, exercises), assigned_date,
  completed_date`).eq('user_id', user.id).order('assigned_date', { ascending: false })
  .limit(5)\<close>
\<close>

definition recent_user_workouts :: "session \<Rightarrow> uuid \<Rightarrow> db \<Rightarrow> user_workouts_row list" where
  "recent_user_workouts ses user_id d =
     take 5 (sort_key (\<lambda>w. - uw_assigned_date w)
       (sort_key (tie_break ses)
          (filter (\<lambda>w. sql_true (sql_eq (uw_user_id w) (Some user_id)))
             (filter (sees_user_workout ses) (user_workouts d)))))"

text \<open>\<open>fetchUserData\<close>. \<open>user\<close> is the answer of \<open>auth.getUser()\<close>.\<close>

definition fetchUserData ::
    "session \<Rightarrow> uuid option \<Rightarrow> db \<Rightarrow> client_state \<Rightarrow> client_state \<times> ui_event list" where
  "fetchUserData ses user d st =
     (case user of
        None \<Rightarrow> (st\<lparr>cs_loading := False\<rparr>, [Call GetUser (Some (SdkError ''Auth session missing!''))])
      | Some user_id \<Rightarrow>
          (let profileData =
                 postgrest_single
                   (select_rows profiles_columns [''full_name'', ''email'', ''id''] False
                      (filter (\<lambda>p. p_id p = user_id) (filter (sees_profile ses) (profiles d))));
               membershipData =
                 postgrest_single
                   (select_objects active_memberships_columns
                      [''name'', ''end_date'', ''trainer_name''] [(''user_id'', Uuid user_id)]
                      (map active_memberships_object (active_memberships d)));
               workoutData =
                 select_rows user_workouts_columns
                   [''workout_id'', ''assigned_date'', ''completed_date'', ''user_id''] False
                   (recent_user_workouts ses user_id d);
               events = [Call GetUser None, Call SelectProfile (r_error profileData),
                         Call SelectActiveMembership (r_error membershipData),
                         Call SelectUserWorkouts (r_error workoutData)];
               st' = st\<lparr>cs_profile :=
                           map_option (\<lambda>p. \<lparr>up_full_name = p_full_name p, up_email = p_email p\<rparr>)
                             (r_data profileData),
                         cs_membership := r_data membershipData\<rparr>
           in case r_data workoutData of
                None \<Rightarrow> (st'\<lparr>cs_workouts := [], cs_loading := False\<rparr>, events)
              | Some rows \<Rightarrow>
                  (case those (map (to_workout ses d) rows) of
                     None \<Rightarrow> (st'\<lparr>cs_loading := False\<rparr>, events @ [Console_error])
                   | Some ws \<Rightarrow> (st'\<lparr>cs_workouts := ws, cs_loading := False\<rparr>, events))))"

text \<open>
  What the component renders. A date is shown through \<open>formatDate(new Date(v))\<close>; the
  page records the value \<open>v\<close> that is formatted (\<open>None\<close> is \<open>undefined\<close>). \<open>expires\<close>
  is the line \<open>Expires: ...\<close>, absent when there is no membership; \<open>next_payment\<close> is
  \<open>N/A\<close> when it is \<open>None\<close>.
\<close>

record workout_card =
  wc_name :: string
  wc_assigned :: date
  wc_label :: string

record client_page =
  membership_text :: js_value
  expires :: "js_value option option"
  trainer_text :: js_value
  next_payment :: "js_value option option"
  recent_count :: nat
  workout_cards :: "workout_card list"

datatype client_view = Loading | Page client_page

definition card_of :: "Workout \<Rightarrow> workout_card" where
  "card_of workout =
     \<lparr>wc_name = wo_name workout, wc_assigned = wo_assigned_date workout,
      wc_label = (if wo_completed_date workout \<noteq> None then ''Completed'' else ''Pending'')\<rparr>"

definition or_text :: "js_value option \<Rightarrow> string \<Rightarrow> js_value" where
  "or_text v fallback =
     (case v of None \<Rightarrow> Str fallback | Some x \<Rightarrow> if truthy (Some x) then x else Str fallback)"

definition render :: "client_state \<Rightarrow> client_view" where
  "render st =
     (if cs_loading st then Loading
      else Page
        \<lparr>membership_text =
           or_text (Option.bind (cs_membership st) (\<lambda>m. map_of m ''name'')) ''No active membership'',
         expires = map_option (\<lambda>m. map_of m ''end_date'') (cs_membership st),
         trainer_text =
           or_text (Option.bind (cs_membership st) (\<lambda>m. map_of m ''trainer_name''))
             ''No trainer assigned'',
         next_payment = map_option (\<lambda>m. map_of m ''end_date'') (cs_membership st),
         recent_count = length (cs_workouts st),
         workout_cards = map card_of (cs_workouts st)\<rparr>)"

text \<open>The SDK calls of a run and the errors they returned; the dialogs it opened.\<close>

fun calls :: "ui_event list \<Rightarrow> sdk_call list" where
  "calls [] = []"
| "calls (Call c e # es) = c # calls es"
| "calls (_ # es) = calls es"

fun sdk_errors :: "ui_event list \<Rightarrow> sdk_error list" where
  "sdk_errors [] = []"
| "sdk_errors (Call c (Some e) # es) = e # sdk_errors es"
| "sdk_errors (_ # es) = sdk_errors es"

fun dialogs :: "ui_event list \<Rightarrow> (swal_icon \<times> string \<times> swal_text) list" where
  "dialogs [] = []"
| "dialogs (Swal_fire i t x # es) = (i, t, x) # dialogs es"
| "dialogs (_ # es) = dialogs es"

subsection \<open>Example data\<close>

definition um_row :: "uuid \<Rightarrow> uuid option \<Rightarrow> uuid option \<Rightarrow> uuid option \<Rightarrow> date \<Rightarrow>
    membership_status \<Rightarrow> user_memberships_row" where
  "um_row i u m t e s = \<lparr>um_id = i, um_user_id = u, um_membership_id = m, um_trainer_id = t,
     um_start_date = 0, um_end_date = e, um_status = s, um_created_at = 0, um_updated_at = 0\<rparr>"

definition expiry_db :: db where
  "expiry_db = empty_db\<lparr>user_memberships :=
     [um_row 1 (Some 1) (Some 1) (Some 7) 10 Active,
      um_row 2 (Some 2) (Some 1) (Some 7) 30 Active,
      um_row 3 (Some 3) (Some 1) None 5 Cancelled]\<rparr>"

definition pay_row :: "uuid \<Rightarrow> uuid option \<Rightarrow> uuid option \<Rightarrow> payment_status \<Rightarrow> payments_row" where
  "pay_row i u m s = \<lparr>pay_id = i, pay_user_id = u, pay_membership_id = m, pay_amount = 4999,
     pay_payment_date = 0, pay_status = s, pay_payment_method = ''card'',
     pay_transaction_id = None, pay_created_at = 0, pay_updated_at = 0\<rparr>"

definition payment_db :: db where
  "payment_db = empty_db\<lparr>
     user_memberships :=
       [um_row 1 (Some 1) (Some 1) (Some 7) 10 Expired,
        um_row 2 (Some 1) (Some 2) (Some 7) 30 Cancelled,
        um_row 3 (Some 2) (Some 1) None 5 Expired,
        um_row 4 None (Some 1) None 5 Expired],
     payments :=
       [pay_row 1 (Some 1) (Some 1) Pending,
        pay_row 2 (Some 1) (Some 2) Completed,
        pay_row 3 None (Some 1) Pending]\<rparr>"

text \<open>
  A lapsed member renews: one membership with trainer 7 expires, ten further members
  join the same trainer, then the payment of the lapsed member is completed.
\<close>

definition before_renewal :: "db_op list" where
  "before_renewal =
     [Insert_user_memberships (um_row 100 (Some 100) (Some 1) (Some 7) 10 Active),
      Call_update_membership_status 20,
      Insert_user_memberships (um_row 1 (Some 1) (Some 1) (Some 7) 400 Active),
      Insert_user_memberships (um_row 2 (Some 2) (Some 1) (Some 7) 400 Active),
      Insert_user_memberships (um_row 3 (Some 3) (Some 1) (Some 7) 400 Active),
      Insert_user_memberships (um_row 4 (Some 4) (Some 1) (Some 7) 400 Active),
      Insert_user_memberships (um_row 5 (Some 5) (Some 1) (Some 7) 400 Active),
      Insert_user_memberships (um_row 6 (Some 6) (Some 1) (Some 7) 400 Active),
      Insert_user_memberships (um_row 7 (Some 7) (Some 1) (Some 7) 400 Active),
      Insert_user_memberships (um_row 8 (Some 8) (Some 1) (Some 7) 400 Active),
      Insert_user_memberships (um_row 9 (Some 9) (Some 1) (Some 7) 400 Active),
      Insert_user_memberships (um_row 10 (Some 10) (Some 1) (Some 7) 400 Active),
      Insert_payments (pay_row 1 (Some 100) (Some 1) Pending)]"

definition renewal :: db_op where
  "renewal = Update_payments (\<lambda>p. Some (pay_id p = 1)) (\<lambda>p. p\<lparr>pay_status := Completed\<rparr>)"

definition users_db :: db where
  "users_db = empty_db\<lparr>users :=
     [\<lparr>u_id = 1, u_role = Client, u_created_at = 0, u_updated_at = 0\<rparr>,
      \<lparr>u_id = 2, u_role = Admin, u_created_at = 0, u_updated_at = 0\<rparr>]\<rparr>"

definition has_at :: "string \<Rightarrow> bool" where
  "has_at v = (CHR ''@'' \<in> set v)"

definition good_login :: login_input where
  "good_login = \<lparr>li_email = ''ann@fithub.io'', li_password = ''12345678''\<rparr>"

definition good_registration :: registration_input where
  "good_registration = \<lparr>ri_email = ''ann@fithub.io'', ri_password = ''12345678'',
     ri_fullName = ''Ann'', ri_phone = Some [], ri_height = Some (Num 170), ri_weight = None,
     ri_dateOfBirth = None, ri_emergencyContact = Some [], ri_medicalConditions = Some []\<rparr>"

definition good_form :: register_form where
  "good_form = \<lparr>rf_email = ''ann@fithub.io'', rf_password = ''12345678'', rf_fullName = ''Ann'',
     rf_phone = [], rf_height = ''170'', rf_weight = [], rf_dateOfBirth = [],
     rf_emergencyContact = [], rf_medicalConditions = []\<rparr>"

definition some_lib :: js_lib where
  "some_lib = \<lparr>lib_is_email = has_at, parseFloat = (\<lambda>v. if v = ''170'' then Num 170 else NaN),
     new_Date = (\<lambda>v. Invalid_Date)\<rparr>"

text \<open>A service on which the insert into \<open>users\<close> fails and everything else succeeds.\<close>

definition users_insert_fails :: register_sdk where
  "users_insert_fails = \<lparr>signUp = (\<lambda>e p. Inr 42),
     insert_users_row = (\<lambda>i r. Some (SdkError ''new row violates row-level security policy'')),
     insert_profiles_row = (\<lambda>i r. None)\<rparr>"

definition sees_all :: session where
  "sees_all = \<lparr>sees_profile = (\<lambda>r. True), sees_user_membership = (\<lambda>r. True),
     sees_payment = (\<lambda>r. True), sees_user_workout = (\<lambda>r. True),
     sees_workout = (\<lambda>r. True), tie_break = (\<lambda>r. 0)\<rparr>"

definition invalid_birth :: registration_input where
  "invalid_birth = \<lparr>ri_email = ''ann@fithub.io'', ri_password = ''12345678'',
     ri_fullName = ''Ann'', ri_phone = Some [], ri_height = Some (Num 170), ri_weight = None,
     ri_dateOfBirth = Some Invalid_Date, ri_emergencyContact = Some [],
     ri_medicalConditions = Some []\<rparr>"

definition admin_db :: db where
  "admin_db = empty_db\<lparr>
     profiles := [\<lparr>p_id = 1, p_full_name = ''Ann'', p_email = ''ann@fithub.io'', p_phone = None,
       p_height = None, p_weight = None, p_date_of_birth = None, p_emergency_contact = None,
       p_medical_conditions = None, p_created_at = 0, p_updated_at = 0\<rparr>],
     memberships := [\<lparr>m_id = 1, m_name = ''Gold'', m_description = None, m_duration_months = 12,
       m_price = 4999, m_created_at = 0, m_updated_at = 0\<rparr>],
     user_memberships := [um_row 1 (Some 1) (Some 1) None 110 Active],
     payments := [pay_row 1 (Some 1) (Some 1) Completed]\<rparr>"

definition uw_row :: "uuid \<Rightarrow> uuid option \<Rightarrow> uuid option \<Rightarrow> date \<Rightarrow> date option \<Rightarrow> user_workouts_row" where
  "uw_row i u w a c = \<lparr>uw_id = i, uw_user_id = u, uw_workout_id = w, uw_trainer_id = None,
     uw_assigned_date = a, uw_completed_date = c, uw_notes = None, uw_created_at = 0,
     uw_updated_at = 0\<rparr>"

definition ann :: profiles_row where
  "ann = \<lparr>p_id = 2, p_full_name = ''Ann'', p_email = ''ann@fithub.io'', p_phone = None,
     p_height = None, p_weight = None, p_date_of_birth = None, p_emergency_contact = None,
     p_medical_conditions = None, p_created_at = 0, p_updated_at = 0\<rparr>"

definition client_db :: db where
  "client_db = empty_db\<lparr>
     profiles := [ann],
     workouts := [\<lparr>w_id = 1, w_name = ''Legs'', w_description = None, w_difficulty_level = None,
       w_duration_minutes = 45, w_exercises = ''[]'', w_created_at = 0, w_updated_at = 0\<rparr>],
     user_workouts :=
       [uw_row 1 (Some 2) (Some 1) 10 (Some 11),
        uw_row 2 (Some 2) (Some 1) 30 None,
        uw_row 3 (Some 3) (Some 1) 70 None,
        uw_row 4 (Some 2) (Some 1) 20 None,
        uw_row 5 (Some 2) (Some 1) 60 (Some 61),
        uw_row 6 (Some 2) (Some 1) 50 None,
        uw_row 7 (Some 2) (Some 1) 40 None]\<rparr>"

definition client_workouts :: "Workout list" where
  "client_workouts =
     [\<lparr>wo_name = ''Legs'', wo_assigned_date = 60, wo_completed_date = Some 61, wo_exercises = ''[]''\<rparr>,
      \<lparr>wo_name = ''Legs'', wo_assigned_date = 50, wo_completed_date = None, wo_exercises = ''[]''\<rparr>,
      \<lparr>wo_name = ''Legs'', wo_assigned_date = 40, wo_completed_date = None, wo_exercises = ''[]''\<rparr>,
      \<lparr>wo_name = ''Legs'', wo_assigned_date = 30, wo_completed_date = None, wo_exercises = ''[]''\<rparr>,
      \<lparr>wo_name = ''Legs'', wo_assigned_date = 20, wo_completed_date = None, wo_exercises = ''[]''\<rparr>]"

definition wrong_password :: login_sdk where
  "wrong_password = \<lparr>signInWithPassword = (\<lambda>c. Inl (SdkError ''Invalid login credentials'')),
     select_role = (\<lambda>i. Inr Client)\<rparr>"

definition already_registered :: register_sdk where
  "already_registered = \<lparr>signUp = (\<lambda>e p. Inl (SdkError ''User already registered'')),
     insert_users_row = (\<lambda>i r. None), insert_profiles_row = (\<lambda>i r. None)\<rparr>"

definition profiles_insert_fails :: register_sdk where
  "profiles_insert_fails = \<lparr>signUp = (\<lambda>e p. Inr 42),
     insert_users_row = (\<lambda>i r. None),
     insert_profiles_row = (\<lambda>i r. Some (SdkError []))\<rparr>"

section \<open>Properties\<close>

lemma sql_and_true_iff: "sql_true (sql_and p q) \<longleftrightarrow> sql_true p \<and> sql_true q"
  by (auto simp: sql_true_def sql_and_def)

lemma sql_true_Some: "sql_true (Some b) \<longleftrightarrow> b"
  by (simp add: sql_true_def)

lemma sql_eq_true_iff: "sql_true (sql_eq a b) \<longleftrightarrow> (\<exists>x. a = Some x \<and> b = Some x)"
  by (auto simp: sql_true_def sql_eq_def split: option.splits)

lemma length_sql_update: "length (sql_update c s t) = length t"
  by (simp add: sql_update_def)

lemma nth_sql_update:
  "i < length t \<Longrightarrow> sql_update c s t ! i = (if sql_true (c (t ! i)) then s (t ! i) else t ! i)"
  by (simp add: sql_update_def)

text \<open>
  Claim C3. Running \<open>update_membership_status\<close> keeps the number and the order of the
  rows of \<open>user_memberships\<close> and touches no other table. A row whose status is
  \<open>active\<close> and whose \<open>end_date\<close> lies strictly before the current date gets the status
  \<open>expired\<close> and keeps every other field; any other row is left exactly as it was.
\<close>

theorem update_membership_status_expires_exactly:
  fixes today :: date and d :: db
  defines "t \<equiv> user_memberships d"
    and "t' \<equiv> user_memberships (update_membership_status today d)"
  shows "length t' = length t
    \<and> (\<forall>i < length t.
         (um_status (t ! i) = Active \<and> um_end_date (t ! i) < today \<longrightarrow>
            um_status (t' ! i) = Expired
            \<and> um_id (t' ! i) = um_id (t ! i)
            \<and> um_user_id (t' ! i) = um_user_id (t ! i)
            \<and> um_membership_id (t' ! i) = um_membership_id (t ! i)
            \<and> um_trainer_id (t' ! i) = um_trainer_id (t ! i)
            \<and> um_start_date (t' ! i) = um_start_date (t ! i)
            \<and> um_end_date (t' ! i) = um_end_date (t ! i)
            \<and> um_created_at (t' ! i) = um_created_at (t ! i)
            \<and> um_updated_at (t' ! i) = um_updated_at (t ! i))
       \<and> (\<not> (um_status (t ! i) = Active \<and> um_end_date (t ! i) < today) \<longrightarrow>
            t' ! i = t ! i))
    \<and> users (update_membership_status today d) = users d
    \<and> profiles (update_membership_status today d) = profiles d
    \<and> memberships (update_membership_status today d) = memberships d
    \<and> workouts (update_membership_status today d) = workouts d
    \<and> user_workouts (update_membership_status today d) = user_workouts d
    \<and> payments (update_membership_status today d) = payments d
    \<and> audit_logs (update_membership_status today d) = audit_logs d"
  unfolding t_def t'_def update_membership_status_def
  by (simp add: length_sql_update nth_sql_update sql_and_true_iff sql_true_Some)

subsection \<open>The payment trigger\<close>

lemma pays_for_activate [simp]: "pays_for NEW (r\<lparr>um_status := st\<rparr>) = pays_for NEW r"
  by (simp add: pays_for_def)

lemma same_key_sql: "sql_true (sql_eq a b) \<longleftrightarrow> same_key a b"
  by (auto simp: sql_eq_true_iff same_key_def)

lemma trigger_user_memberships:
  "user_memberships (update_membership_status_on_payment NEW d) =
     map (\<lambda>r. if pays_for NEW r then r\<lparr>um_status := Active\<rparr> else r) (user_memberships d)"
  by (simp add: update_membership_status_on_payment_def sql_update_def sql_and_true_iff
      same_key_sql pays_for_def)

lemma trigger_payments:
  "payments (update_membership_status_on_payment NEW d) = payments d"
  by (simp add: update_membership_status_on_payment_def)

lemma fold_trigger_user_memberships:
  "user_memberships (fold (\<lambda>p. update_membership_status_on_payment (s p)) ps d) =
     map (\<lambda>r. if \<exists>p \<in> set ps. pays_for (s p) r then r\<lparr>um_status := Active\<rparr> else r)
         (user_memberships d)"
proof (induction ps arbitrary: d)
  case Nil
  show ?case by simp
next
  case (Cons p ps)
  have "user_memberships (fold (\<lambda>p. update_membership_status_on_payment (s p)) (p # ps) d) =
        map (\<lambda>r. if \<exists>q \<in> set ps. pays_for (s q) r then r\<lparr>um_status := Active\<rparr> else r)
            (user_memberships (update_membership_status_on_payment (s p) d))"
    using Cons.IH [of "update_membership_status_on_payment (s p) d"] by simp
  also have "\<dots> = map (\<lambda>r. if \<exists>q \<in> set (p # ps). pays_for (s q) r
                            then r\<lparr>um_status := Active\<rparr> else r) (user_memberships d)"
    by (simp add: trigger_user_memberships)
  finally show ?case .
qed

lemma update_payments_user_memberships:
  "user_memberships (update_payments c s d) =
     map (\<lambda>r. if \<exists>p \<in> set (filter (\<lambda>p. sql_true (c p)) (payments d)). pays_for (s p) r
              then r\<lparr>um_status := Active\<rparr> else r)
         (user_memberships d)"
  by (simp add: update_payments_def fold_trigger_user_memberships del: set_filter)

text \<open>
  Claim C2. Let an UPDATE on \<open>payments\<close> replace the rows that satisfy its condition
  \<open>c\<close> by their images under \<open>s\<close>. Afterwards a row of \<open>user_memberships\<close> has status
  \<open>active\<close>, with every other field as before, when some updated payment row has the
  new status \<open>completed\<close> and the same \<open>user_id\<close> and \<open>membership_id\<close> (a NULL key is
  the same as nothing); every other row of \<open>user_memberships\<close> is as before. In
  particular an update none of whose new rows has status \<open>completed\<close> changes no row of
  \<open>user_memberships\<close>.
\<close>

theorem payment_update_activates_matching:
  fixes c s d
  defines "updated \<equiv> filter (\<lambda>p. sql_true (c p)) (payments d)"
  shows "user_memberships (update_payments c s d) =
           map (\<lambda>r. if \<exists>p \<in> set updated.
                         pay_status (s p) = Completed
                         \<and> same_key (um_user_id r) (pay_user_id (s p))
                         \<and> same_key (um_membership_id r) (pay_membership_id (s p))
                    then r\<lparr>um_status := Active\<rparr> else r)
               (user_memberships d)
    \<and> ((\<forall>p \<in> set updated. pay_status (s p) \<noteq> Completed) \<longrightarrow>
          user_memberships (update_payments c s d) = user_memberships d)"
proof -
  have eq: "user_memberships (update_payments c s d) =
      map (\<lambda>r. if \<exists>p \<in> set updated. pays_for (s p) r then r\<lparr>um_status := Active\<rparr> else r)
          (user_memberships d)"
    unfolding updated_def by (rule update_payments_user_memberships)
  have "(\<forall>p \<in> set updated. pay_status (s p) \<noteq> Completed) \<Longrightarrow>
      map (\<lambda>r. if \<exists>p \<in> set updated. pays_for (s p) r then r\<lparr>um_status := Active\<rparr> else r)
          (user_memberships d) = user_memberships d"
    by (simp add: pays_for_def)
  with eq show ?thesis by (simp add: pays_for_def)
qed


theorem payment_update_activates_matching_witness:
  "user_memberships
     (update_payments (\<lambda>p. Some (pay_id p = 1)) (\<lambda>p. p\<lparr>pay_status := Completed\<rparr>) payment_db) =
     [um_row 1 (Some 1) (Some 1) (Some 7) 10 Active,
      um_row 2 (Some 1) (Some 2) (Some 7) 30 Cancelled,
      um_row 3 (Some 2) (Some 1) None 5 Expired,
      um_row 4 None (Some 1) None 5 Expired]
   \<and> filter (\<lambda>p. sql_true (Some (pay_id p = 1))) (payments payment_db)
       = [pay_row 1 (Some 1) (Some 1) Pending]
   \<and> pay_status ((pay_row 1 (Some 1) (Some 1) Pending)\<lparr>pay_status := Failed\<rparr>) \<noteq> Completed
   \<and> user_memberships
        (update_payments (\<lambda>p. Some (pay_id p = 1)) (\<lambda>p. p\<lparr>pay_status := Failed\<rparr>) payment_db) =
      user_memberships payment_db"
  using payment_update_activates_matching
          [where c = "\<lambda>p. Some (pay_id p = 1)" and d = payment_db
             and s = "\<lambda>p. p\<lparr>pay_status := Completed\<rparr>"]
        payment_update_activates_matching
          [where c = "\<lambda>p. Some (pay_id p = 1)" and d = payment_db
             and s = "\<lambda>p. p\<lparr>pay_status := Failed\<rparr>"]
  by (simp add: payment_db_def empty_db_def um_row_def pay_row_def sql_true_def same_key_def)

text \<open>
  Claim C9. An INSERT into \<open>payments\<close> changes no row of \<open>user_memberships\<close>, whatever
  the status of the inserted payment. An UPDATE on \<open>payments\<close> sets to \<open>active\<close> every
  row of \<open>user_memberships\<close> that has the same \<open>user_id\<close> and \<open>membership_id\<close> as an
  updated payment row whose new status is \<open>completed\<close>: neither the payment's old status
  nor the membership's old status (\<open>expired\<close> and \<open>cancelled\<close> included) matters.
\<close>

theorem payment_trigger_on_update_only:
  "user_memberships (insert_payments p d) = user_memberships d
   \<and> (\<forall>q \<in> set (payments d). \<forall>i < length (user_memberships d).
        sql_true (c q) \<and> pay_status (s q) = Completed
        \<and> same_key (um_user_id (user_memberships d ! i)) (pay_user_id (s q))
        \<and> same_key (um_membership_id (user_memberships d ! i)) (pay_membership_id (s q))
        \<longrightarrow> user_memberships (update_payments c s d) ! i
              = (user_memberships d ! i)\<lparr>um_status := Active\<rparr>)"
proof -
  have "user_memberships (insert_payments p d) = user_memberships d"
    by (simp add: insert_payments_def)
  moreover have "user_memberships (update_payments c s d) ! i
      = (user_memberships d ! i)\<lparr>um_status := Active\<rparr>"
    if "q \<in> set (payments d)" "i < length (user_memberships d)" "sql_true (c q)"
       "pays_for (s q) (user_memberships d ! i)" for q i
  proof -
    from that have "\<exists>p \<in> set (filter (\<lambda>p. sql_true (c p)) (payments d)).
        pays_for (s p) (user_memberships d ! i)"
      by auto
    with that(2) show ?thesis
      by (simp add: update_payments_user_memberships del: set_filter)
  qed
  ultimately show ?thesis
    by (simp add: pays_for_def)
qed

theorem payment_trigger_on_update_only_witness:
  "user_memberships (insert_payments (pay_row 9 (Some 2) (Some 1) Completed) payment_db)
     = user_memberships payment_db
   \<and> pay_row 2 (Some 1) (Some 2) Completed \<in> set (payments payment_db)
   \<and> 1 < length (user_memberships payment_db)
   \<and> user_memberships payment_db ! 1 = um_row 2 (Some 1) (Some 2) (Some 7) 30 Cancelled
   \<and> user_memberships
       (update_payments (\<lambda>p. Some (pay_id p = 2)) (\<lambda>p. p\<lparr>pay_payment_method := ''cash''\<rparr>)
          payment_db) ! 1
     = um_row 2 (Some 1) (Some 2) (Some 7) 30 Active"
  using payment_trigger_on_update_only
          [where p = "pay_row 9 (Some 2) (Some 1) Completed" and d = payment_db
             and c = "\<lambda>p. Some (pay_id p = 2)"
             and s = "\<lambda>p. p\<lparr>pay_payment_method := ''cash''\<rparr>"]
  by (simp add: payment_db_def empty_db_def um_row_def pay_row_def sql_true_def same_key_def)

subsection \<open>Trainer capacity\<close>

lemma active_clients_append:
  "active_clients t (d\<lparr>user_memberships := user_memberships d @ [r]\<rparr>) =
     active_clients t d + (if same_key (um_trainer_id r) t \<and> um_status r = Active then 1 else 0)"
  by (simp add: active_clients_def sql_count_def sql_and_true_iff same_key_sql sql_true_Some)

text \<open>An INSERT that the trigger lets through keeps every trainer at ten or fewer.\<close>

lemma insert_user_memberships_keeps_capacity:
  assumes "insert_user_memberships r d = Inr d'" and "active_clients t d \<le> 10"
  shows "active_clients t d' \<le> 10"
proof -
  from assms(1) have below: "active_clients (um_trainer_id r) d < 10"
    and d': "d' = d\<lparr>user_memberships := user_memberships d @ [r]\<rparr>"
    by (auto simp: insert_user_memberships_def check_trainer_availability_def
        split: if_splits)
  show ?thesis
  proof (cases "same_key (um_trainer_id r) t")
    case True
    then have "um_trainer_id r = t" by (simp add: same_key_def)
    with below show ?thesis by (simp add: d' active_clients_append)
  next
    case False
    with assms(2) show ?thesis by (simp add: d' active_clients_append)
  qed
qed

lemma insert_user_memberships_rejects_full:
  "10 \<le> active_clients (um_trainer_id r) d \<Longrightarrow>
   insert_user_memberships r d = Inl (Exception ''Trainer has reached maximum client capacity'')"
  by (simp add: insert_user_memberships_def check_trainer_availability_def)

text \<open>The expiry procedure never adds an active membership.\<close>

lemma length_filter_map_le:
  "(\<And>x. P (f x) \<Longrightarrow> P x) \<Longrightarrow> length (filter P (map f xs)) \<le> length (filter P xs)"
  by (induction xs) (auto simp: le_SucI)

lemma update_membership_status_active_clients:
  "active_clients t (update_membership_status today d) \<le> active_clients t d"
proof -
  let ?P = "\<lambda>r. sql_true (sql_and (sql_eq (um_trainer_id r) t) (Some (um_status r = Active)))"
  let ?f = "\<lambda>r. if sql_true (sql_and (Some (um_end_date r < today)) (Some (um_status r = Active)))
                 then r\<lparr>um_status := Expired\<rparr> else r"
  have "length (filter ?P (map ?f (user_memberships d))) \<le> length (filter ?P (user_memberships d))"
    by (rule length_filter_map_le) (simp add: sql_and_true_iff sql_true_Some split: if_splits)
  then show ?thesis
    by (simp add: active_clients_def sql_count_def update_membership_status_def sql_update_def
        del: filter_map)
qed

text \<open>
  Claim C1. The trigger \<open>check_trainer_availability\<close> guards INSERT only. After the
  statements of \<open>before_renewal\<close> trainer 7 has ten active memberships and one expired
  one, and a further INSERT for trainer 7 is rejected; completing the payment of the
  expired membership sets it back to \<open>active\<close> with no capacity check, and trainer 7
  has eleven active memberships.
\<close>

theorem renewal_exceeds_trainer_capacity:
  "active_clients (Some 7) (run before_renewal) = 10
   \<and> exec (Insert_user_memberships (um_row 11 (Some 11) (Some 1) (Some 7) 400 Active))
          (run before_renewal)
     = Inl (Exception ''Trainer has reached maximum client capacity'')
   \<and> active_clients (Some 7) (run (before_renewal @ [renewal])) = 11"
  by (simp add: run_def before_renewal_def renewal_def step_def empty_db_def um_row_def
      pay_row_def insert_user_memberships_def check_trainer_availability_def
      active_clients_def sql_count_def sql_and_def sql_eq_def sql_true_def sql_update_def
      insert_payments_def update_payments_def update_membership_status_def
      update_membership_status_on_payment_def)


subsection \<open>Membership expiry\<close>

theorem update_membership_status_expires_exactly_witness:
  "(0::nat) < length (user_memberships expiry_db)
   \<and> um_status (user_memberships expiry_db ! 0) = Active
   \<and> um_end_date (user_memberships expiry_db ! 0) < 20
   \<and> user_memberships (update_membership_status 20 expiry_db) ! 0
       = um_row 1 (Some 1) (Some 1) (Some 7) 10 Expired
   \<and> \<not> (um_status (user_memberships expiry_db ! 1) = Active
          \<and> um_end_date (user_memberships expiry_db ! 1) < 20)
   \<and> user_memberships (update_membership_status 20 expiry_db) ! 1
       = user_memberships expiry_db ! 1
   \<and> user_memberships (update_membership_status 20 expiry_db) ! 2
       = user_memberships expiry_db ! 2"
  using update_membership_status_expires_exactly [of 20 expiry_db]
  by (simp add: expiry_db_def empty_db_def um_row_def update_membership_status_def
      sql_update_def sql_and_def sql_true_def)

subsection \<open>Audit log\<close>

lemma audit_logs_fold_log:
  "audit_logs (fold (\<lambda>r. log_user_changes op (old r) (new r) uid) rs d) =
     audit_logs d @ map (\<lambda>r. \<lparr>al_table_name = Some ''users'',
                               al_record_id = map_option u_id (new r),
                               al_action = Some (tg_op_text op),
                               al_old_data = old r, al_new_data = new r,
                               al_changed_by = uid\<rparr>) rs"
  by (induction rs arbitrary: d) (simp_all add: log_user_changes_def)

text \<open>An INSERT and a single-row UPDATE on \<open>users\<close> log the id of the row they touch.\<close>

lemma insert_users_audit:
  "audit_logs (insert_users r uid d) =
     audit_logs d @ [\<lparr>al_table_name = Some ''users'', al_record_id = Some (u_id r),
                      al_action = Some ''INSERT'', al_old_data = None, al_new_data = Some r,
                      al_changed_by = uid\<rparr>]"
  by (simp add: insert_users_def log_user_changes_def)

lemma update_users_audit:
  "audit_logs (update_users c s uid d) =
     audit_logs d @ map (\<lambda>r. \<lparr>al_table_name = Some ''users'', al_record_id = Some (u_id (s r)),
                               al_action = Some ''UPDATE'', al_old_data = Some r,
                               al_new_data = Some (s r), al_changed_by = uid\<rparr>)
                        (filter (\<lambda>r. sql_true (c r)) (users d))"
  by (simp add: update_users_def audit_logs_fold_log [where new = "\<lambda>r. Some (s r)" and old = Some])

lemma delete_users_audit:
  "audit_logs (delete_users c uid d) =
     audit_logs d @ map (\<lambda>r. \<lparr>al_table_name = Some ''users'', al_record_id = None,
                               al_action = Some ''DELETE'', al_old_data = Some r,
                               al_new_data = None, al_changed_by = uid\<rparr>)
                        (filter (\<lambda>r. sql_true (c r)) (users d))"
  by (simp add: delete_users_def audit_logs_fold_log [where new = "\<lambda>r. None" and old = Some])

text \<open>
  Claim C4. \<open>DELETE FROM users WHERE id = 1\<close>, run by the authenticated user 2 on a
  table that holds the row with id 1, removes that row and appends one row to
  \<open>audit_logs\<close>; its \<open>record_id\<close> is NULL, not 1, because the trigger function takes
  the id from \<open>NEW\<close>, which is null for DELETE.
\<close>

theorem delete_users_logs_null_record_id:
  "users (delete_users (\<lambda>r. Some (u_id r = 1)) (Some 2) users_db) =
     [\<lparr>u_id = 2, u_role = Admin, u_created_at = 0, u_updated_at = 0\<rparr>]
   \<and> audit_logs (delete_users (\<lambda>r. Some (u_id r = 1)) (Some 2) users_db) =
     [\<lparr>al_table_name = Some ''users'', al_record_id = None, al_action = Some ''DELETE'',
       al_old_data = Some \<lparr>u_id = 1, u_role = Client, u_created_at = 0, u_updated_at = 0\<rparr>,
       al_new_data = None, al_changed_by = Some 2\<rparr>]"
  by (simp add: delete_users_def users_db_def empty_db_def log_user_changes_def sql_true_def)


subsection \<open>Form validation\<close>

lemma parse_succeeds_iff: "(\<exists>v. parse schema x = Inr v) \<longleftrightarrow> schema x = []"
  by (simp add: parse_def Let_def)

lemma z_number_positive_Nil: "z_number_positive msg path v = [] \<longleftrightarrow> strictly_positive v"
  by (cases v) auto

lemma z_optional_number_Nil:
  "z_optional (z_number_positive msg) path v = [] \<longleftrightarrow> (\<forall>x. v = Some x \<longrightarrow> strictly_positive x)"
  by (cases v) (simp_all add: z_optional_def z_number_positive_Nil)

lemma z_optional_date_Nil: "z_optional z_date path v = [] \<longleftrightarrow> v \<noteq> Some Invalid_Date"
proof (cases v)
  case None
  then show ?thesis by (simp add: z_optional_def)
next
  case (Some t)
  then show ?thesis by (cases t) (simp_all add: z_optional_def)
qed

lemma z_optional_string_Nil: "z_optional z_string path v = []"
  by (cases v) (simp_all add: z_optional_def z_string_def)

text \<open>
  Claim C7, as stated, fails: a registration with a valid email, a password of 8
  characters, a full name of 3 characters, a positive height, no weight and an invalid
  date of birth meets every condition that the claim names, and is rejected.
\<close>

theorem invalid_date_of_birth_rejected:
  "has_at (ri_email invalid_birth)
   \<and> 8 \<le> length (ri_password invalid_birth)
   \<and> 2 \<le> length (ri_fullName invalid_birth)
   \<and> ri_height invalid_birth = Some (Num 170) \<and> strictly_positive (Num 170)
   \<and> ri_weight invalid_birth = None
   \<and> parse (registrationSchema has_at) invalid_birth
       = Inl [Issue ''dateOfBirth'' ''Invalid date'']"
  by (simp add: invalid_birth_def has_at_def parse_def registrationSchema_def
      z_string_email_def z_string_min_def z_optional_def z_string_def)

text \<open>
  Claim C7, amended. Parsing with \<open>loginSchema\<close> succeeds exactly when the email is a
  valid email address and the password has at least 8 characters, and then returns
  its input. Parsing with \<open>registrationSchema\<close> succeeds exactly when, in addition,
  the full name has at least 2 characters, the height and the weight, where supplied,
  are strictly positive numbers, and the date of birth, where supplied, is a valid
  date; phone, date of birth, emergency contact and medical conditions may be absent.
\<close>

theorem schemas_accept_exactly_well_formed:
  "((\<exists>v. parse (loginSchema is_email) x = Inr v) \<longleftrightarrow>
      is_email (li_email x) \<and> 8 \<le> length (li_password x))
   \<and> (\<forall>v. parse (loginSchema is_email) x = Inr v \<longrightarrow> v = x)
   \<and> ((\<exists>v. parse (registrationSchema is_email) y = Inr v) \<longleftrightarrow>
        is_email (ri_email y) \<and> 8 \<le> length (ri_password y)
        \<and> 2 \<le> length (ri_fullName y)
        \<and> (\<forall>h. ri_height y = Some h \<longrightarrow> strictly_positive h)
        \<and> (\<forall>w. ri_weight y = Some w \<longrightarrow> strictly_positive w)
        \<and> ri_dateOfBirth y \<noteq> Some Invalid_Date)
   \<and> (\<forall>v. parse (registrationSchema is_email) y = Inr v \<longrightarrow> v = y)"
proof -
  have login: "loginSchema is_email x = [] \<longleftrightarrow>
      is_email (li_email x) \<and> 8 \<le> length (li_password x)"
    by (auto simp: loginSchema_def z_string_email_def z_string_min_def)
  have registration: "registrationSchema is_email y = [] \<longleftrightarrow>
      is_email (ri_email y) \<and> 8 \<le> length (ri_password y) \<and> 2 \<le> length (ri_fullName y)
      \<and> (\<forall>h. ri_height y = Some h \<longrightarrow> strictly_positive h)
      \<and> (\<forall>w. ri_weight y = Some w \<longrightarrow> strictly_positive w)
      \<and> ri_dateOfBirth y \<noteq> Some Invalid_Date"
    unfolding registrationSchema_def append_is_Nil_conv z_optional_number_Nil
      z_optional_date_Nil z_optional_string_Nil
    by (auto simp: z_string_email_def z_string_min_def)
  have l: "\<forall>v. parse (loginSchema is_email) x = Inr v \<longrightarrow> v = x"
    by (simp add: parse_def Let_def)
  have r: "\<forall>v. parse (registrationSchema is_email) y = Inr v \<longrightarrow> v = y"
    by (simp add: parse_def Let_def)
  have "(\<exists>v. parse (loginSchema is_email) x = Inr v) \<longleftrightarrow>
      is_email (li_email x) \<and> 8 \<le> length (li_password x)"
    by (simp only: parse_succeeds_iff login)
  moreover have "(\<exists>v. parse (registrationSchema is_email) y = Inr v) \<longleftrightarrow>
      is_email (ri_email y) \<and> 8 \<le> length (ri_password y) \<and> 2 \<le> length (ri_fullName y)
      \<and> (\<forall>h. ri_height y = Some h \<longrightarrow> strictly_positive h)
      \<and> (\<forall>w. ri_weight y = Some w \<longrightarrow> strictly_positive w)
      \<and> ri_dateOfBirth y \<noteq> Some Invalid_Date"
    by (simp only: parse_succeeds_iff registration)
  ultimately show ?thesis
    using l r by (intro conjI)
qed


theorem schemas_accept_exactly_well_formed_witness:
  "parse (loginSchema has_at) good_login = Inr good_login
   \<and> has_at (li_email good_login) \<and> 8 \<le> length (li_password good_login)
   \<and> parse (registrationSchema has_at) good_registration = Inr good_registration
   \<and> ri_height good_registration = Some (Num 170) \<and> strictly_positive (Num 170)
   \<and> parse (registrationSchema has_at) (good_registration\<lparr>ri_height := Some (Num 0)\<rparr>)
       = Inl [Issue ''height'' ''Height must be positive'']"
  using schemas_accept_exactly_well_formed
          [where is_email = has_at and x = good_login and y = good_registration]
  by (simp add: good_login_def good_registration_def has_at_def parse_def loginSchema_def
      registrationSchema_def z_string_email_def z_string_min_def z_optional_def z_string_def)

subsection \<open>Registration\<close>

text \<open>
  Claim C10. When the form validates, the sign-up succeeds and the insert into
  \<open>profiles\<close> succeeds, \<open>RegisterPage.handleSubmit\<close> opens the success dialog and
  navigates to \<open>/login\<close>, whatever the insert into \<open>users\<close> returned; the only trace of
  that result is the call itself, and no error dialog is opened.
\<close>

theorem register_ignores_users_insert_error:
  assumes "parse (registrationSchema (lib_is_email lib)) (registration_input_of lib formData)
             = Inr validatedData"
    and "signUp sdk (ri_email validatedData) (ri_password validatedData) = Inr user_id"
    and "insert_profiles_row sdk user_id validatedData = None"
  shows "register_handleSubmit lib sdk formData =
           [SetLoading True, Call SignUp None, Console_log,
            Call InsertUsers (insert_users_row sdk user_id Client),
            Call InsertProfiles None,
            Swal_fire Success_icon ''Registration Successful''
              (Plain ''Welcome to FitHub! You can now log in.''),
            Navigate ''/login'', SetLoading False]"
  using assms by (simp add: register_handleSubmit_def register_try_def Let_def)

theorem register_ignores_users_insert_error_witness:
  "parse (registrationSchema (lib_is_email some_lib)) (registration_input_of some_lib good_form)
     = Inr good_registration
   \<and> signUp users_insert_fails (ri_email good_registration) (ri_password good_registration)
     = Inr 42
   \<and> insert_profiles_row users_insert_fails 42 good_registration = None
   \<and> insert_users_row users_insert_fails 42 Client
     = Some (SdkError ''new row violates row-level security policy'')
   \<and> register_handleSubmit some_lib users_insert_fails good_form =
       [SetLoading True, Call SignUp None, Console_log,
        Call InsertUsers (Some (SdkError ''new row violates row-level security policy'')),
        Call InsertProfiles None,
        Swal_fire Success_icon ''Registration Successful''
          (Plain ''Welcome to FitHub! You can now log in.''),
        Navigate ''/login'', SetLoading False]"
proof -
  have p: "parse (registrationSchema (lib_is_email some_lib)) (registration_input_of some_lib good_form)
      = Inr good_registration"
    by (simp add: some_lib_def good_form_def good_registration_def registration_input_of_def
        has_at_def parse_def registrationSchema_def z_string_email_def z_string_min_def
        z_optional_def z_string_def)
  have s: "signUp users_insert_fails (ri_email good_registration) (ri_password good_registration)
      = Inr 42"
    by (simp add: users_insert_fails_def)
  have i: "insert_profiles_row users_insert_fails 42 good_registration = None"
    by (simp add: users_insert_fails_def)
  have u: "insert_users_row users_insert_fails 42 Client
      = Some (SdkError ''new row violates row-level security policy'')"
    by (simp add: users_insert_fails_def)
  from register_ignores_users_insert_error [OF p s i] p s i u show ?thesis
    by simp
qed


subsection \<open>Admin dashboard\<close>

lemma select_rows_array_count:
  "or_zero (Option.bind (r_data (select_rows columns named exact rows)) array_count) = 0"
  by (simp add: select_rows_def failed_def array_count_def or_zero_def)

text \<open>The three counters are zero on every database.\<close>

lemma fetchDashboardData_counts:
  "totalMembers (fst (fetchDashboardData ses fp today d)) = 0
   \<and> activeMembers (fst (fetchDashboardData ses fp today d)) = 0
   \<and> upcomingRenewals (fst (fetchDashboardData ses fp today d)) = 0"
  by (simp add: fetchDashboardData_def Let_def select_rows_array_count)

lemma or_zero_number_id: "or_zero_number x = x"
  by (simp add: or_zero_number_def)

lemma fold_double_add:
  assumes "\<And>a b. double_add fp a b = a + b"
  shows "fold (\<lambda>payment sum. double_add fp sum (double_of fp (pay_amount payment))) rows a =
           a + sum_list (map (\<lambda>p. double_of fp (pay_amount p)) rows)"
  by (induction rows arbitrary: a) (simp_all add: assms)

text \<open>
  The revenue is the sum, in doubles, of the amounts of the completed payments that
  the session sees: it is their sum where no addition rounds.
\<close>

lemma fetchDashboardData_revenue:
  assumes "\<And>a b. double_add fp a b = a + b"
  shows "totalRevenue (fst (fetchDashboardData ses fp today d)) =
     sum_list (map (\<lambda>p. double_of fp (pay_amount p))
       (filter (\<lambda>p. pay_status p = Completed) (filter (sees_payment ses) (payments d))))"
  by (simp add: fetchDashboardData_def Let_def select_rows_def payments_columns_def
      fold_double_add [OF assms] or_zero_number_id del: filter_filter)

text \<open>
  Claim C6. On a database with one profile, one active membership that ends ten days
  from today and one completed payment of 49.99, the view \<open>upcoming_renewals\<close> has one
  row. The admin dashboard, in a session that sees every row, computes as revenue the
  sum in doubles of 0 and 49.99, but 0 for the total members, the active members and
  the upcoming renewals.
\<close>

theorem admin_dashboard_counts_are_zero:
  "length (profiles admin_db) = 1
   \<and> length (filter (\<lambda>r. um_status r = Active) (user_memberships admin_db)) = 1
   \<and> length (upcoming_renewals 100 admin_db) = 1
   \<and> sum_list (map pay_amount (filter (\<lambda>p. pay_status p = Completed) (payments admin_db))) = 4999
   \<and> fst (fetchDashboardData sees_all fp 100 admin_db) =
       \<lparr>totalMembers = 0, activeMembers = 0,
        totalRevenue = double_add fp 0 (double_of fp 4999), upcomingRenewals = 0\<rparr>"
proof -
  have "length (upcoming_renewals 100 admin_db) = 1"
    by (simp add: upcoming_renewals_def admin_db_def empty_db_def um_row_def sql_eq_def
        sql_true_def)
  moreover have "fst (fetchDashboardData sees_all fp 100 admin_db) =
      \<lparr>totalMembers = 0, activeMembers = 0,
       totalRevenue = double_add fp 0 (double_of fp 4999), upcomingRenewals = 0\<rparr>"
    by (simp add: fetchDashboardData_def Let_def select_rows_def failed_def array_count_def
        or_zero_def payments_columns_def admin_db_def empty_db_def pay_row_def sees_all_def
        or_zero_number_id)
  ultimately show ?thesis
    by (simp add: admin_db_def empty_db_def um_row_def pay_row_def)
qed

subsection \<open>Client dashboard\<close>

lemma those_map_list_all2:
  "those (map f xs) = Some ys \<Longrightarrow> list_all2 (\<lambda>x y. f x = Some y) xs ys"
  by (induction xs arbitrary: ys) (auto split: option.splits)

lemma those_map_None_iff: "those (map f xs) = None \<longleftrightarrow> (\<exists>x \<in> set xs. f x = None)"
  by (induction xs) (auto split: option.splits)

lemma sort_key_descending:
  fixes f :: "'a \<Rightarrow> int"
  shows "sorted_wrt (\<lambda>a b. f b \<le> f a) (sort_key (\<lambda>w. - f w) xs)"
  using sorted_sort_key [of "\<lambda>w. - f w" xs] by (simp add: sorted_map)

lemma mset_take_drop: "mset xs = mset (take n xs) + mset (drop n xs)"
  by (metis append_take_drop_id mset_append)

lemma sorted_wrt_take_drop:
  "sorted_wrt R xs \<Longrightarrow> x \<in> set (take n xs) \<Longrightarrow> y \<in> set (drop n xs) \<Longrightarrow> R x y"
  using sorted_wrt_append [of R "take n xs" "drop n xs"] by simp

text \<open>The rows of a user that the session sees, as the query selects them.\<close>

lemma own_user_workouts:
  "filter (\<lambda>w. sql_true (sql_eq (uw_user_id w) (Some uid))) (filter (sees_user_workout ses) xs)
     = filter (\<lambda>w. uw_user_id w = Some uid \<and> sees_user_workout ses w) xs"
  by (induction xs) (auto simp: sql_eq_true_iff)

text \<open>
  The answer of the query: the five latest of those rows, or all of them when there
  are fewer, latest first; every row left out is no later than each row returned.
\<close>

lemma recent_user_workouts_answer:
  fixes ses uid d
  defines "own \<equiv> filter (\<lambda>w. uw_user_id w = Some uid \<and> sees_user_workout ses w) (user_workouts d)"
    and "rows \<equiv> recent_user_workouts ses uid d"
  shows recent_length: "length rows = min 5 (length own)"
    and recent_sub: "mset rows \<subseteq># mset own"
    and recent_sorted: "sorted_wrt (\<lambda>a b. uw_assigned_date b \<le> uw_assigned_date a) rows"
    and recent_rest: "\<forall>w \<in># mset own - mset rows. \<forall>r \<in> set rows.
                        uw_assigned_date w \<le> uw_assigned_date r"
proof -
  define every where
    "every = sort_key (\<lambda>w. - uw_assigned_date w) (sort_key (tie_break ses) own)"
  have rows: "rows = take 5 every"
    by (simp only: rows_def every_def own_def recent_user_workouts_def own_user_workouts)
  have perm: "mset every = mset own"
    by (simp add: every_def)
  have sorted: "sorted_wrt (\<lambda>a b. uw_assigned_date b \<le> uw_assigned_date a) every"
    unfolding every_def by (rule sort_key_descending)
  have split: "mset own = mset rows + mset (drop 5 every)"
    unfolding rows perm [symmetric] by (rule mset_take_drop)
  show "length rows = min 5 (length own)"
    using arg_cong [OF perm, of size] by (simp add: rows min.commute)
  show "mset rows \<subseteq># mset own"
    by (simp add: split)
  show "sorted_wrt (\<lambda>a b. uw_assigned_date b \<le> uw_assigned_date a) rows"
    unfolding rows by (rule sorted_wrt_take [OF sorted])
  have rest: "mset own - mset rows = mset (drop 5 every)"
    by (simp add: split)
  show "\<forall>w \<in># mset own - mset rows. \<forall>r \<in> set rows. uw_assigned_date w \<le> uw_assigned_date r"
    unfolding rest using sorted_wrt_take_drop [OF sorted, of _ 5] by (auto simp: rows)
qed

lemma recent_user_workouts_length: "length (recent_user_workouts ses uid d) \<le> 5"
  by (simp add: recent_length)

lemma recent_user_workouts_set:
  "w \<in> set (recent_user_workouts ses uid d) \<Longrightarrow>
     w \<in> set (user_workouts d) \<and> uw_user_id w = Some uid \<and> sees_user_workout ses w"
  using set_mset_mono [OF recent_sub [where ses = ses and uid = uid and d = d]] by auto

text \<open>The first row of the query is a latest workout of the user.\<close>

lemma recent_user_workouts_latest:
  assumes "recent_user_workouts ses uid d = r # rs"
    and "w \<in> set (user_workouts d)" and "uw_user_id w = Some uid \<and> sees_user_workout ses w"
  shows "uw_assigned_date w \<le> uw_assigned_date r"
proof -
  let ?own = "filter (\<lambda>w. uw_user_id w = Some uid \<and> sees_user_workout ses w) (user_workouts d)"
  let ?rows = "recent_user_workouts ses uid d"
  from assms(2,3) have own: "w \<in># mset ?own" by simp
  show ?thesis
  proof (cases "w \<in> set ?rows")
    case True
    with recent_sorted [where ses = ses and uid = uid and d = d] show ?thesis
      unfolding assms(1) by auto
  next
    case False
    then have "count (mset ?rows) w = 0"
      by (simp add: count_eq_zero_iff)
    moreover from own have "0 < count (mset ?own) w"
      by (simp only: count_greater_zero_iff)
    ultimately have "w \<in># mset ?own - mset ?rows"
      by (simp only: in_diff_count)
    with recent_rest [where ses = ses and uid = uid and d = d] have "\<forall>r \<in> set ?rows. uw_assigned_date w \<le> uw_assigned_date r"
      by blast
    then show ?thesis
      unfolding assms(1) by simp
  qed
qed

lemma find_SomeD: "find P xs = Some x \<Longrightarrow> P x \<and> x \<in> set xs"
  by (induction xs) (auto split: if_splits)

lemma to_workout_Some:
  "to_workout ses d w = Some y \<Longrightarrow>
     wo_assigned_date y = uw_assigned_date w \<and> wo_completed_date y = uw_completed_date w
     \<and> (\<exists>x \<in> set (workouts d). sees_workout ses x \<and> uw_workout_id w = Some (w_id x)
            \<and> wo_name y = w_name x)"
  by (auto simp: to_workout_def sql_eq_true_iff split: option.splits dest!: find_SomeD)

lemma to_workout_None_iff:
  "to_workout ses d w = None \<longleftrightarrow>
     \<not> (\<exists>x \<in> set (workouts d). sees_workout ses x \<and> uw_workout_id w = Some (w_id x))"
  by (auto simp: to_workout_def find_None_iff sql_eq_true_iff split: option.splits
      dest!: find_SomeD)

text \<open>
  After \<open>fetchUserData\<close> the workouts of the state are those of the query, one for one,
  when every row of the answer has its workout embedded, and none at all otherwise.
\<close>

lemma fetchUserData_workouts_exact:
  "cs_workouts (fst (fetchUserData ses (Some uid) d initial_state)) =
     (case those (map (to_workout ses d) (recent_user_workouts ses uid d)) of
        None \<Rightarrow> [] | Some ws \<Rightarrow> ws)"
  by (simp add: fetchUserData_def Let_def initial_state_def select_rows_def
      user_workouts_columns_def split: option.splits)

lemma fetchUserData_workouts:
  "cs_workouts (fst (fetchUserData ses (Some uid) d initial_state)) = []
   \<or> list_all2 (\<lambda>w y. to_workout ses d w = Some y) (recent_user_workouts ses uid d)
        (cs_workouts (fst (fetchUserData ses (Some uid) d initial_state)))"
  unfolding fetchUserData_workouts_exact
  by (auto dest: those_map_list_all2 split: option.splits)

lemma fetchUserData_loading:
  "cs_loading (fst (fetchUserData ses user d st)) = False"
  by (simp add: fetchUserData_def Let_def split: option.splits)

text \<open>
  The membership query names the columns \<open>name\<close> and \<open>user_id\<close>, which the view
  \<open>active_memberships\<close> does not have: it is answered with an error on every database.
\<close>

lemma fetchUserData_membership:
  "cs_membership (fst (fetchUserData ses user d initial_state)) = None"
  by (simp add: fetchUserData_def Let_def initial_state_def select_objects_def failed_def
      postgrest_single_def active_memberships_columns_def split: option.splits)

lemma list_all2_right_witness:
  "list_all2 P xs ys \<Longrightarrow> y \<in> set ys \<Longrightarrow> \<exists>x \<in> set xs. P x y"
  by (induction rule: list_all2_induct) auto

lemma list_all2_map_eq:
  "list_all2 (\<lambda>x y. g y = f x) xs ys \<Longrightarrow> map g ys = map f xs"
  by (induction rule: list_all2_induct) auto

lemma fetched_workouts:
  fixes ses uid d
  defines "ws \<equiv> cs_workouts (fst (fetchUserData ses (Some uid) d initial_state))"
  shows fetched_length: "length ws \<le> 5"
    and fetched_sorted: "sorted_wrt (\<lambda>a b. wo_assigned_date b \<le> wo_assigned_date a) ws"
    and fetched_source: "y \<in> set ws \<Longrightarrow>
          \<exists>w \<in> set (user_workouts d). (uw_user_id w = Some uid \<and> sees_user_workout ses w)
             \<and> to_workout ses d w = Some y"
    and fetched_latest: "ws = y # ys \<Longrightarrow> w \<in> set (user_workouts d)
          \<Longrightarrow> uw_user_id w = Some uid \<and> sees_user_workout ses w
          \<Longrightarrow> uw_assigned_date w \<le> wo_assigned_date y"
proof -
  let ?rows = "recent_user_workouts ses uid d"
  have cases: "ws = [] \<or> list_all2 (\<lambda>w y. to_workout ses d w = Some y) ?rows ws"
    unfolding ws_def by (rule fetchUserData_workouts)
  show "length ws \<le> 5"
    using cases recent_user_workouts_length [where ses = ses and uid = uid and d = d] by (auto dest: list_all2_lengthD)
  show "sorted_wrt (\<lambda>a b. wo_assigned_date b \<le> wo_assigned_date a) ws"
  proof (rule disjE [OF cases])
    assume "ws = []"
    then show ?thesis by simp
  next
    assume all2: "list_all2 (\<lambda>w y. to_workout ses d w = Some y) ?rows ws"
    then have "list_all2 (\<lambda>w y. wo_assigned_date y = uw_assigned_date w) ?rows ws"
      by (rule list_all2_mono) (simp add: to_workout_Some)
    then have "map wo_assigned_date ws = map uw_assigned_date ?rows"
      by (rule list_all2_map_eq)
    moreover have "sorted_wrt (\<lambda>a b. b \<le> a) (map uw_assigned_date ?rows)"
      using recent_sorted [where ses = ses and uid = uid and d = d] by (simp add: sorted_wrt_map)
    ultimately have "sorted_wrt (\<lambda>a b. b \<le> a) (map wo_assigned_date ws)"
      by simp
    then show ?thesis by (simp add: sorted_wrt_map)
  qed
  show "\<exists>w \<in> set (user_workouts d). (uw_user_id w = Some uid \<and> sees_user_workout ses w)
      \<and> to_workout ses d w = Some y"
    if "y \<in> set ws"
  proof -
    from that cases have "list_all2 (\<lambda>w y. to_workout ses d w = Some y) ?rows ws"
      by auto
    from list_all2_right_witness [OF this that]
    obtain w where "w \<in> set ?rows" "to_workout ses d w = Some y" by blast
    with recent_user_workouts_set [where w = w and ses = ses and uid = uid and d = d] show ?thesis by blast
  qed
  show "uw_assigned_date w \<le> wo_assigned_date y"
    if "ws = y # ys" "w \<in> set (user_workouts d)"
      "uw_user_id w = Some uid \<and> sees_user_workout ses w"
  proof -
    from that(1) cases have "list_all2 (\<lambda>w y. to_workout ses d w = Some y) ?rows (y # ys)"
      by auto
    then obtain r rs where rows: "?rows = r # rs" and r: "to_workout ses d r = Some y"
      by (auto simp: list_all2_Cons2)
    from recent_user_workouts_latest [OF rows that(2,3)] to_workout_Some [OF r]
    show ?thesis by simp
  qed
qed

text \<open>
  When every row of the answer has a workout that the session sees, the cards are the
  rows of the answer, one for one and in their order; otherwise no card is listed.
\<close>

lemma fetched_cards:
  fixes ses uid d
  defines "rows \<equiv> recent_user_workouts ses uid d"
    and "ws \<equiv> cs_workouts (fst (fetchUserData ses (Some uid) d initial_state))"
  shows "if \<forall>w \<in> set rows. \<exists>x \<in> set (workouts d).
               sees_workout ses x \<and> uw_workout_id w = Some (w_id x)
         then list_all2
                (\<lambda>w c. wc_assigned c = uw_assigned_date w
                   \<and> wc_label c = (if uw_completed_date w \<noteq> None then ''Completed'' else ''Pending'')
                   \<and> (\<exists>x \<in> set (workouts d). sees_workout ses x
                          \<and> uw_workout_id w = Some (w_id x) \<and> wc_name c = w_name x))
                rows (map card_of ws)
         else map card_of ws = []"
proof (cases "those (map (to_workout ses d) rows)")
  case None
  then have "\<not> (\<forall>w \<in> set rows. \<exists>x \<in> set (workouts d).
      sees_workout ses x \<and> uw_workout_id w = Some (w_id x))"
    by (auto simp: those_map_None_iff to_workout_None_iff)
  moreover from None have "map card_of ws = []"
    by (simp add: ws_def rows_def fetchUserData_workouts_exact)
  ultimately show ?thesis by (simp only: if_not_P) simp
next
  case (Some ys)
  then have ws: "ws = ys"
    by (simp add: ws_def rows_def fetchUserData_workouts_exact)
  from Some have all2: "list_all2 (\<lambda>w y. to_workout ses d w = Some y) rows ws"
    unfolding ws by (rule those_map_list_all2)
  have every: "\<forall>w \<in> set rows. \<exists>x \<in> set (workouts d).
      sees_workout ses x \<and> uw_workout_id w = Some (w_id x)"
  proof
    fix w assume "w \<in> set rows"
    with all2 obtain y where "to_workout ses d w = Some y"
      by (auto simp: list_all2_conv_all_nth in_set_conv_nth)
    then show "\<exists>x \<in> set (workouts d). sees_workout ses x \<and> uw_workout_id w = Some (w_id x)"
      using to_workout_None_iff [of ses d w] by auto
  qed
  have "list_all2
      (\<lambda>w y. wc_assigned (card_of y) = uw_assigned_date w
         \<and> wc_label (card_of y) = (if uw_completed_date w \<noteq> None then ''Completed'' else ''Pending'')
         \<and> (\<exists>x \<in> set (workouts d). sees_workout ses x
                \<and> uw_workout_id w = Some (w_id x) \<and> wc_name (card_of y) = w_name x))
      rows ws"
    using all2
  proof (rule list_all2_mono)
    fix w y assume "to_workout ses d w = Some y"
    from to_workout_Some [OF this]
    show "wc_assigned (card_of y) = uw_assigned_date w
      \<and> wc_label (card_of y) = (if uw_completed_date w \<noteq> None then ''Completed'' else ''Pending'')
      \<and> (\<exists>x \<in> set (workouts d). sees_workout ses x
             \<and> uw_workout_id w = Some (w_id x) \<and> wc_name (card_of y) = w_name x)"
      by (auto simp: card_of_def)
  qed
  then have "list_all2
      (\<lambda>w c. wc_assigned c = uw_assigned_date w
         \<and> wc_label c = (if uw_completed_date w \<noteq> None then ''Completed'' else ''Pending'')
         \<and> (\<exists>x \<in> set (workouts d). sees_workout ses x
                \<and> uw_workout_id w = Some (w_id x) \<and> wc_name c = w_name x))
      rows (map card_of ws)"
    by (simp only: list_all2_map2)
  with every show ?thesis by (simp only: if_P)
qed

text \<open>
  Claim C8. For a signed-in user the client dashboard renders a page. It lists at most
  5 workouts, in descending order of \<open>assigned_date\<close>; each of them is a row of
  \<open>user_workouts\<close> of that user, shown with the name of its workout and labelled
  \<open>Completed\<close> when its \<open>completed_date\<close> is not null and \<open>Pending\<close> otherwise; the
  first one listed is a latest one among the workouts of the user that the session
  sees.

  Which workouts are listed: the query answers with rows of the user, five of them or
  all when the user has fewer, latest first, and every row of the user that is left out
  was assigned no later than each row of the answer. The page lists exactly these
  rows, one card for each and in their order, when each of them has its workout;
  when one of them has none, the page lists no workout.

  The page shows \<open>No active membership\<close> and no expiry line. This holds on every
  database, and so when the user has no active membership.
\<close>

theorem client_dashboard_lists_recent_workouts:
  fixes ses :: session and uid :: uuid and d :: db
  defines "view \<equiv> render (fst (fetchUserData ses (Some uid) d initial_state))"
    and "own \<equiv> filter (\<lambda>w. uw_user_id w = Some uid \<and> sees_user_workout ses w) (user_workouts d)"
  shows "\<exists>pg. view = Page pg
     \<and> length (workout_cards pg) \<le> 5
     \<and> sorted_wrt (\<lambda>a b. wc_assigned b \<le> wc_assigned a) (workout_cards pg)
     \<and> (\<forall>c \<in> set (workout_cards pg). \<exists>w \<in> set own.
           wc_assigned c = uw_assigned_date w
           \<and> (\<exists>x \<in> set (workouts d). sees_workout ses x
                  \<and> uw_workout_id w = Some (w_id x) \<and> wc_name c = w_name x)
           \<and> wc_label c = (if uw_completed_date w \<noteq> None then ''Completed'' else ''Pending''))
     \<and> (\<forall>c cs. workout_cards pg = c # cs \<longrightarrow>
           (\<forall>w \<in> set own. uw_assigned_date w \<le> wc_assigned c))
     \<and> (\<exists>rows.
           length rows = min 5 (length own)
           \<and> mset rows \<subseteq># mset own
           \<and> sorted_wrt (\<lambda>a b. uw_assigned_date b \<le> uw_assigned_date a) rows
           \<and> (\<forall>w \<in># mset own - mset rows. \<forall>r \<in> set rows.
                 uw_assigned_date w \<le> uw_assigned_date r)
           \<and> (if \<forall>w \<in> set rows. \<exists>x \<in> set (workouts d).
                     sees_workout ses x \<and> uw_workout_id w = Some (w_id x)
               then list_all2
                      (\<lambda>w c. wc_assigned c = uw_assigned_date w
                         \<and> wc_label c = (if uw_completed_date w \<noteq> None then ''Completed''
                                         else ''Pending'')
                         \<and> (\<exists>x \<in> set (workouts d). sees_workout ses x
                                \<and> uw_workout_id w = Some (w_id x) \<and> wc_name c = w_name x))
                      rows (workout_cards pg)
               else workout_cards pg = []))
     \<and> membership_text pg = Str ''No active membership'' \<and> expires pg = None"
proof -
  define ws where "ws = cs_workouts (fst (fetchUserData ses (Some uid) d initial_state))"
  define pg where "pg = \<lparr>membership_text = Str ''No active membership'', expires = None,
      trainer_text = Str ''No trainer assigned'', next_payment = None,
      recent_count = length ws, workout_cards = map card_of ws\<rparr>"
  have view: "view = Page pg"
    by (simp add: view_def pg_def ws_def render_def fetchUserData_loading
        fetchUserData_membership or_text_def)
  have cards: "workout_cards pg = map card_of ws"
    by (simp add: pg_def)
  have 1: "length (workout_cards pg) \<le> 5"
    unfolding cards ws_def using fetched_length [where ses = ses and uid = uid and d = d] by simp
  have 2: "sorted_wrt (\<lambda>a b. wc_assigned b \<le> wc_assigned a) (workout_cards pg)"
    unfolding cards ws_def using fetched_sorted [where ses = ses and uid = uid and d = d]
    by (simp add: sorted_wrt_map card_of_def)
  have 3: "\<forall>c \<in> set (workout_cards pg). \<exists>w \<in> set own.
        wc_assigned c = uw_assigned_date w
        \<and> (\<exists>x \<in> set (workouts d). sees_workout ses x
               \<and> uw_workout_id w = Some (w_id x) \<and> wc_name c = w_name x)
        \<and> wc_label c = (if uw_completed_date w \<noteq> None then ''Completed'' else ''Pending'')"
  proof
    fix c assume that: "c \<in> set (workout_cards pg)"
    from that obtain y where y: "y \<in> set ws" and c: "c = card_of y"
      unfolding cards by auto
    from fetched_source [OF y [unfolded ws_def]]
    obtain w where w: "w \<in> set (user_workouts d)"
      "uw_user_id w = Some uid \<and> sees_user_workout ses w"
      "to_workout ses d w = Some y" by blast
    from w(1,2) have "w \<in> set own" by (simp add: own_def)
    with to_workout_Some [OF w(3)]
    show "\<exists>w \<in> set own. wc_assigned c = uw_assigned_date w
        \<and> (\<exists>x \<in> set (workouts d). sees_workout ses x
               \<and> uw_workout_id w = Some (w_id x) \<and> wc_name c = w_name x)
        \<and> wc_label c = (if uw_completed_date w \<noteq> None then ''Completed'' else ''Pending'')"
      unfolding c card_of_def by (intro bexI [of _ w]) auto
  qed
  have 4: "\<forall>c cs. workout_cards pg = c # cs \<longrightarrow>
      (\<forall>w \<in> set own. uw_assigned_date w \<le> wc_assigned c)"
  proof (intro allI impI ballI)
    fix c cs w assume that: "workout_cards pg = c # cs" "w \<in> set own"
    from that(1) obtain y ys where ws: "ws = y # ys" and c: "c = card_of y"
      unfolding cards by auto
    from that(2) have "w \<in> set (user_workouts d)"
      "uw_user_id w = Some uid \<and> sees_user_workout ses w"
      by (simp_all add: own_def)
    from fetched_latest [OF ws [unfolded ws_def] this]
    show "uw_assigned_date w \<le> wc_assigned c"
      by (simp add: c card_of_def)
  qed
  have 5: "\<exists>rows.
      length rows = min 5 (length own)
      \<and> mset rows \<subseteq># mset own
      \<and> sorted_wrt (\<lambda>a b. uw_assigned_date b \<le> uw_assigned_date a) rows
      \<and> (\<forall>w \<in># mset own - mset rows. \<forall>r \<in> set rows. uw_assigned_date w \<le> uw_assigned_date r)
      \<and> (if \<forall>w \<in> set rows. \<exists>x \<in> set (workouts d).
                sees_workout ses x \<and> uw_workout_id w = Some (w_id x)
          then list_all2
                 (\<lambda>w c. wc_assigned c = uw_assigned_date w
                    \<and> wc_label c = (if uw_completed_date w \<noteq> None then ''Completed''
                                    else ''Pending'')
                    \<and> (\<exists>x \<in> set (workouts d). sees_workout ses x
                           \<and> uw_workout_id w = Some (w_id x) \<and> wc_name c = w_name x))
                 rows (workout_cards pg)
          else workout_cards pg = [])"
    unfolding cards ws_def own_def
    by (rule exI [of _ "recent_user_workouts ses uid d"])
       (intro conjI recent_length recent_sub recent_sorted recent_rest fetched_cards)
  have 6: "membership_text pg = Str ''No active membership'' \<and> expires pg = None"
    by (simp add: pg_def)
  show ?thesis
    by (rule exI [of _ pg]) (intro view 1 2 3 4 5 6 conjI)
qed

lemma client_db_workouts:
  "those (map (to_workout sees_all client_db) (recent_user_workouts sees_all 2 client_db))
     = Some client_workouts"
proof -
  have "recent_user_workouts sees_all 2 client_db =
      [uw_row 5 (Some 2) (Some 1) 60 (Some 61), uw_row 6 (Some 2) (Some 1) 50 None,
       uw_row 7 (Some 2) (Some 1) 40 None, uw_row 2 (Some 2) (Some 1) 30 None,
       uw_row 4 (Some 2) (Some 1) 20 None]"
    by (simp add: recent_user_workouts_def client_db_def empty_db_def uw_row_def sql_eq_def
        sql_true_def sees_all_def)
  then show ?thesis
    by (simp add: to_workout_def uw_row_def client_db_def empty_db_def sql_eq_def sql_true_def
        client_workouts_def sees_all_def)
qed

theorem client_dashboard_lists_recent_workouts_witness:
  "length (filter (\<lambda>w. uw_user_id w = Some 2 \<and> sees_user_workout sees_all w)
             (user_workouts client_db)) = 6
   \<and> render (fst (fetchUserData sees_all (Some 2) client_db initial_state)) =
       Page \<lparr>membership_text = Str ''No active membership'', expires = None,
             trainer_text = Str ''No trainer assigned'', next_payment = None,
             recent_count = 5,
             workout_cards =
               [\<lparr>wc_name = ''Legs'', wc_assigned = 60, wc_label = ''Completed''\<rparr>,
                \<lparr>wc_name = ''Legs'', wc_assigned = 50, wc_label = ''Pending''\<rparr>,
                \<lparr>wc_name = ''Legs'', wc_assigned = 40, wc_label = ''Pending''\<rparr>,
                \<lparr>wc_name = ''Legs'', wc_assigned = 30, wc_label = ''Pending''\<rparr>,
                \<lparr>wc_name = ''Legs'', wc_assigned = 20, wc_label = ''Pending''\<rparr>]\<rparr>"
proof -
  have ws: "cs_workouts (fst (fetchUserData sees_all (Some 2) client_db initial_state))
      = client_workouts"
    by (simp add: fetchUserData_workouts_exact client_db_workouts)
  have own: "length (filter (\<lambda>w. uw_user_id w = Some 2 \<and> sees_user_workout sees_all w)
      (user_workouts client_db)) = 6"
    by (simp add: client_db_def empty_db_def uw_row_def sees_all_def)
  have "render (fst (fetchUserData sees_all (Some 2) client_db initial_state)) =
       Page \<lparr>membership_text = Str ''No active membership'', expires = None,
             trainer_text = Str ''No trainer assigned'', next_payment = None,
             recent_count = 5,
             workout_cards =
               [\<lparr>wc_name = ''Legs'', wc_assigned = 60, wc_label = ''Completed''\<rparr>,
                \<lparr>wc_name = ''Legs'', wc_assigned = 50, wc_label = ''Pending''\<rparr>,
                \<lparr>wc_name = ''Legs'', wc_assigned = 40, wc_label = ''Pending''\<rparr>,
                \<lparr>wc_name = ''Legs'', wc_assigned = 30, wc_label = ''Pending''\<rparr>,
                \<lparr>wc_name = ''Legs'', wc_assigned = 20, wc_label = ''Pending''\<rparr>]\<rparr>"
    by (simp add: render_def fetchUserData_loading fetchUserData_membership ws or_text_def
        card_of_def client_workouts_def)
  with own client_dashboard_lists_recent_workouts
             [where ses = sees_all and uid = 2 and d = client_db]
  show ?thesis
    by - (rule conjI; assumption)
qed

subsection \<open>Errors of the SDK\<close>

text \<open>
  Claim C5, as stated, fails on the client dashboard: for a signed-in user the
  membership query returns an error, and \<open>fetchUserData\<close> opens no dialog.
\<close>

theorem dashboard_error_not_surfaced:
  "sdk_errors (snd (fetchUserData sees_all (Some 2) client_db initial_state))
     = [SdkError ''column does not exist'']
   \<and> dialogs (snd (fetchUserData sees_all (Some 2) client_db initial_state)) = []"
proof -
  have "filter (\<lambda>p. sees_profile sees_all p \<and> p_id p = 2) (profiles client_db) = [ann]"
    by (simp add: client_db_def empty_db_def ann_def sees_all_def)
  then show ?thesis
    by (simp add: fetchUserData_def Let_def client_db_workouts select_rows_def
        select_objects_def failed_def postgrest_single_def profiles_columns_def
        active_memberships_columns_def user_workouts_columns_def)
qed

lemma calls_login_try:
  "calls (fst (login_try ie sdk f)) \<in> {[], [SignInWithPassword], [SignInWithPassword, SelectRole]}"
  by (simp add: login_try_def split: sum.splits)

lemma dialogs_append: "dialogs (xs @ ys) = dialogs xs @ dialogs ys"
  by (induction xs rule: dialogs.induct) simp_all

lemma calls_append: "calls (xs @ ys) = calls xs @ calls ys"
  by (induction xs rule: calls.induct) simp_all

lemma distinct_calls_login: "distinct (calls (login_handleSubmit ie sdk f))"
proof -
  obtain events thrown where t: "login_try ie sdk f = (events, thrown)"
    by (cases "login_try ie sdk f")
  with calls_login_try [of ie sdk f] have "distinct (calls events)" by auto
  with t show ?thesis
    by (simp add: login_handleSubmit_def calls_append split: option.splits)
qed

lemma calls_register_try:
  "calls (fst (register_try lib sdk g)) \<in> {[], [SignUp], [SignUp, InsertUsers, InsertProfiles]}"
  by (simp add: register_try_def Let_def split: sum.splits option.splits)

lemma distinct_calls_register: "distinct (calls (register_handleSubmit lib sdk g))"
proof -
  obtain events thrown where t: "register_try lib sdk g = (events, thrown)"
    by (cases "register_try lib sdk g")
  with calls_register_try [of lib sdk g] have "distinct (calls events)" by auto
  with t show ?thesis
    by (simp add: register_handleSubmit_def calls_append split: option.splits)
qed

lemma fetchUserData_events:
  "calls (snd (fetchUserData ses user d st)) \<in>
     {[GetUser], [GetUser, SelectProfile, SelectActiveMembership, SelectUserWorkouts]}
   \<and> dialogs (snd (fetchUserData ses user d st)) = []"
  by (simp add: fetchUserData_def Let_def calls_append dialogs_append split: option.splits)

lemma fetchDashboardData_events:
  "calls (snd (fetchDashboardData ses fp today d)) =
     [CountProfiles, CountActive, SelectRevenue, CountRenewals, SelectRecentMembers]
   \<and> dialogs (snd (fetchDashboardData ses fp today d)) = []"
  by (simp add: fetchDashboardData_def Let_def)

text \<open>
  Claim C5, amended. When the form validates and the sign-in call returns an error,
  \<open>LoginPage.handleSubmit\<close> opens one error dialog with the message of that error (a
  fixed text when the message is empty) and does nothing else; so does
  \<open>RegisterPage.handleSubmit\<close> for an error of the sign-up call and, after a
  successful sign-up, for an error of the insert into \<open>profiles\<close>. No handler and no
  dashboard fetch makes an SDK call twice. The dashboard fetches open no dialog.
\<close>

theorem checked_sdk_errors_open_one_dialog:
  "(parse (loginSchema ie) f = Inr v \<and> signInWithPassword lsdk v = Inl e \<longrightarrow>
      login_handleSubmit ie lsdk f =
        [SetLoading True, Call SignInWithPassword (Some e),
         Swal_fire Error_icon ''Login Failed''
           (message_or (Sdk e) ''Please check your credentials and try again.''),
         SetLoading False])
   \<and> (parse (registrationSchema (lib_is_email lib)) (registration_input_of lib g) = Inr w
        \<and> signUp rsdk (ri_email w) (ri_password w) = Inl e \<longrightarrow>
      register_handleSubmit lib rsdk g =
        [SetLoading True, Call SignUp (Some e), Console_log,
         Swal_fire Error_icon ''Registration Failed''
           (message_or (Sdk e) ''Please check your information and try again.''),
         SetLoading False])
   \<and> (parse (registrationSchema (lib_is_email lib)) (registration_input_of lib g) = Inr w
        \<and> signUp rsdk (ri_email w) (ri_password w) = Inr uid
        \<and> insert_profiles_row rsdk uid w = Some e \<longrightarrow>
      register_handleSubmit lib rsdk g =
        [SetLoading True, Call SignUp None, Console_log,
         Call InsertUsers (insert_users_row rsdk uid Client), Call InsertProfiles (Some e),
         Swal_fire Error_icon ''Registration Failed''
           (message_or (Sdk e) ''Please check your information and try again.''),
         SetLoading False])
   \<and> distinct (calls (login_handleSubmit ie lsdk f))
   \<and> distinct (calls (register_handleSubmit lib rsdk g))
   \<and> distinct (calls (snd (fetchUserData ses user d st)))
   \<and> distinct (calls (snd (fetchDashboardData ses fp today d)))
   \<and> dialogs (snd (fetchUserData ses user d st)) = []
   \<and> dialogs (snd (fetchDashboardData ses fp today d)) = []"
proof -
  have "login_handleSubmit ie lsdk f =
        [SetLoading True, Call SignInWithPassword (Some e),
         Swal_fire Error_icon ''Login Failed''
           (message_or (Sdk e) ''Please check your credentials and try again.''),
         SetLoading False]"
    if "parse (loginSchema ie) f = Inr v" "signInWithPassword lsdk v = Inl e"
    using that by (simp add: login_handleSubmit_def login_try_def)
  moreover have "register_handleSubmit lib rsdk g =
        [SetLoading True, Call SignUp (Some e), Console_log,
         Swal_fire Error_icon ''Registration Failed''
           (message_or (Sdk e) ''Please check your information and try again.''),
         SetLoading False]"
    if "parse (registrationSchema (lib_is_email lib)) (registration_input_of lib g) = Inr w"
       "signUp rsdk (ri_email w) (ri_password w) = Inl e"
    using that by (simp add: register_handleSubmit_def register_try_def)
  moreover have "register_handleSubmit lib rsdk g =
        [SetLoading True, Call SignUp None, Console_log,
         Call InsertUsers (insert_users_row rsdk uid Client), Call InsertProfiles (Some e),
         Swal_fire Error_icon ''Registration Failed''
           (message_or (Sdk e) ''Please check your information and try again.''),
         SetLoading False]"
    if "parse (registrationSchema (lib_is_email lib)) (registration_input_of lib g) = Inr w"
       "signUp rsdk (ri_email w) (ri_password w) = Inr uid"
       "insert_profiles_row rsdk uid w = Some e"
    using that by (simp add: register_handleSubmit_def register_try_def Let_def)
  moreover have "distinct (calls (snd (fetchUserData ses user d st)))"
    using fetchUserData_events [of ses user d st] by auto
  moreover have "distinct (calls (snd (fetchDashboardData ses fp today d)))"
    by (simp add: fetchDashboardData_events)
  ultimately show ?thesis
    using distinct_calls_login [of ie lsdk f] distinct_calls_register [of lib rsdk g]
      fetchUserData_events [of ses user d st] fetchDashboardData_events [of ses fp today d]
    by blast
qed

theorem checked_sdk_errors_open_one_dialog_witness:
  "parse (loginSchema has_at) good_login = Inr good_login
   \<and> signInWithPassword wrong_password good_login = Inl (SdkError ''Invalid login credentials'')
   \<and> login_handleSubmit has_at wrong_password good_login =
       [SetLoading True, Call SignInWithPassword (Some (SdkError ''Invalid login credentials'')),
        Swal_fire Error_icon ''Login Failed'' (Plain ''Invalid login credentials''),
        SetLoading False]
   \<and> parse (registrationSchema (lib_is_email some_lib)) (registration_input_of some_lib good_form)
       = Inr good_registration
   \<and> signUp already_registered (ri_email good_registration) (ri_password good_registration)
       = Inl (SdkError ''User already registered'')
   \<and> register_handleSubmit some_lib already_registered good_form =
       [SetLoading True, Call SignUp (Some (SdkError ''User already registered'')), Console_log,
        Swal_fire Error_icon ''Registration Failed'' (Plain ''User already registered''),
        SetLoading False]
   \<and> signUp profiles_insert_fails (ri_email good_registration) (ri_password good_registration)
       = Inr 42
   \<and> insert_profiles_row profiles_insert_fails 42 good_registration = Some (SdkError [])
   \<and> register_handleSubmit some_lib profiles_insert_fails good_form =
       [SetLoading True, Call SignUp None, Console_log, Call InsertUsers None,
        Call InsertProfiles (Some (SdkError [])),
        Swal_fire Error_icon ''Registration Failed''
          (Plain ''Please check your information and try again.''),
        SetLoading False]"
proof -
  have l: "parse (loginSchema has_at) good_login = Inr good_login"
    by (simp add: good_login_def has_at_def parse_def loginSchema_def z_string_email_def
        z_string_min_def)
  have p: "parse (registrationSchema (lib_is_email some_lib)) (registration_input_of some_lib good_form)
      = Inr good_registration"
    by (simp add: some_lib_def good_form_def good_registration_def registration_input_of_def
        has_at_def parse_def registrationSchema_def z_string_email_def z_string_min_def
        z_optional_def z_string_def)
  have s: "signInWithPassword wrong_password good_login = Inl (SdkError ''Invalid login credentials'')"
    "signUp already_registered (ri_email good_registration) (ri_password good_registration)
       = Inl (SdkError ''User already registered'')"
    "signUp profiles_insert_fails (ri_email good_registration) (ri_password good_registration)
       = Inr 42"
    "insert_profiles_row profiles_insert_fails 42 good_registration = Some (SdkError [])"
    "insert_users_row profiles_insert_fails 42 Client = None"
    by (simp_all add: wrong_password_def already_registered_def profiles_insert_fails_def)
  from checked_sdk_errors_open_one_dialog
         [where ie = has_at and f = good_login and v = good_login and lsdk = wrong_password
            and e = "SdkError ''Invalid login credentials''"]
       checked_sdk_errors_open_one_dialog
         [where lib = some_lib and g = good_form and w = good_registration
            and rsdk = already_registered and e = "SdkError ''User already registered''"]
       checked_sdk_errors_open_one_dialog
         [where lib = some_lib and g = good_form and w = good_registration
            and rsdk = profiles_insert_fails and uid = 42 and e = "SdkError []"]
       l p s
  show ?thesis by simp
qed


end
